theory Spec2Isabelle
  imports Complex_Main "HOL-Library.Char_ord" "HOL-Library.List_Lexorder" "HOL-Library.Multiset"
  "HOL-Library.Word"
begin

section \<open>Data model (src/types, as used by the hooks and components)\<close>

text \<open>
  JavaScript numbers are modelled as \<open>real\<close> for prices and as \<open>int\<close> for quantities
  (rounding of doubles is not modelled). An optional property (\<open>x?: T\<close>, possibly
  \<open>undefined\<close> or \<open>null\<close>) is an \<open>option\<close>. Record fields carry the name of their
  interface where the source reuses \<open>id\<close>, \<open>name\<close>, \<open>price\<close> and \<open>quantity\<close>.
\<close>

text \<open>
  Text that the user types or that the backend stores, where the code looks at its
  characters (\<open>trim\<close>): the sequence of its UTF-16 code units, as a JavaScript string is.
  \<open>codeUnits\<close> gives the code units of a text of characters below 256, for writing
  examples. Ids, keys and labels, which the code only compares and concatenates, are
  \<open>string\<close>.
\<close>

type_synonym utf16 = "16 word list"

definition codeUnits :: "string \<Rightarrow> utf16" where
  "codeUnits s = map (\<lambda>c. of_nat (of_char c)) s"

datatype user_type = end_user | reseller

record Member =
  member_id :: string
  username :: string
  email :: string
  user_type :: user_type
  status :: string
  password_hash :: string

record Variation =
  variation_id :: string
  variation_name :: string
  price :: real
  member_price :: "real option"
  reseller_price :: "real option"

record AddOn =
  addon_id :: string
  addon_name :: string
  addon_price :: real
  addon_quantity :: "int option"

record CustomField =
  field_key :: string
  field_label :: string
  required :: bool

record MenuItem =
  item_id :: string
  item_name :: string
  basePrice :: real
  isOnDiscount :: bool
  discountPercentage :: "real option"
  variations :: "Variation list option"
  customFields :: "CustomField list option"

record CartItem = MenuItem +
  quantity :: int
  selectedVariation :: "Variation option"
  selectedAddOns :: "AddOn list option"
  totalPrice :: real
  effectiveUnitPriceOverride :: "real option"

section \<open>Price resolution (src/hooks/useCart.ts, src/components/MenuItemCard.tsx)\<close>

text \<open>useCart.ts, \<open>getVariationPriceForMember\<close>.\<close>

definition getVariationPriceForMember :: "Variation \<Rightarrow> Member option \<Rightarrow> real" where
  "getVariationPriceForMember variation currentMember =
     (case currentMember of
        None \<Rightarrow> price variation
      | Some m \<Rightarrow>
          (case (user_type m, reseller_price variation, member_price variation) of
             (reseller, Some rp, _) \<Rightarrow> rp
           | (end_user, _, Some mp) \<Rightarrow> mp
           | _ \<Rightarrow> price variation))"

text \<open>\<open>addOn.quantity ?? 1\<close>: only an absent quantity defaults to one.\<close>

definition quantityOrOne :: "AddOn \<Rightarrow> int" where
  "quantityOrOne addOn = (case addon_quantity addOn of None \<Rightarrow> 1 | Some q \<Rightarrow> q)"

text \<open>
  useCart.ts, \<open>calculateItemPrice\<close>: the running \<open>price\<close> variable is threaded through
  the optional variation and the \<open>forEach\<close> over the optional add-ons.
\<close>

definition calculateItemPrice ::
  "Member option \<Rightarrow> 'a MenuItem_scheme \<Rightarrow> Variation option \<Rightarrow> AddOn list option \<Rightarrow> real" where
  "calculateItemPrice currentMember item variation addOns =
     (let price0 = basePrice item;
          price1 = (case variation of
                      None \<Rightarrow> price0
                    | Some v \<Rightarrow> price0 + getVariationPriceForMember v currentMember)
      in case addOns of
           None \<Rightarrow> price1
         | Some as \<Rightarrow>
             foldl (\<lambda>p addOn. p + real_of_int (quantityOrOne addOn) * addon_price addOn) price1 as)"

text \<open>useCart.ts, \<open>getEffectiveUnitPrice\<close>.\<close>

definition getEffectiveUnitPrice :: "Member option \<Rightarrow> 'a CartItem_scheme \<Rightarrow> real" where
  "getEffectiveUnitPrice currentMember cartItem =
     (case effectiveUnitPriceOverride cartItem of
        Some p \<Rightarrow> p
      | None \<Rightarrow>
          calculateItemPrice currentMember cartItem (selectedVariation cartItem)
            (selectedAddOns cartItem))"

text \<open>useCart.ts, \<open>getTotalPrice\<close>.\<close>

definition getTotalPrice :: "Member option \<Rightarrow> 'a CartItem_scheme list \<Rightarrow> real" where
  "getTotalPrice currentMember cartItems =
     foldl (\<lambda>total item. total + getEffectiveUnitPrice currentMember item * real_of_int (quantity item))
       0 cartItems"

text \<open>MemberAuthContext.tsx, \<open>isReseller\<close>: \<open>currentMember?.user_type === 'reseller'\<close>.\<close>

definition isReseller :: "Member option \<Rightarrow> bool" where
  "isReseller currentMember =
     (case currentMember of None \<Rightarrow> False | Some m \<Rightarrow> user_type m = reseller)"

text \<open>MenuItemCard.tsx, \<open>getVariationById\<close>: an empty id string is falsy.\<close>

definition getVariationById :: "'a MenuItem_scheme \<Rightarrow> string option \<Rightarrow> Variation option" where
  "getVariationById item variationId =
     (case variationId of
        None \<Rightarrow> None
      | Some vid \<Rightarrow>
          if vid = [] then None
          else (case variations item of
                  None \<Rightarrow> None
                | Some vs \<Rightarrow> find (\<lambda>v. variation_id v = vid) vs))"

text \<open>
  \<open>memberDiscounts[variationId]\<close> used as a condition: the id must be a non-empty string
  and the cached selling price present and non-zero.
\<close>

definition cachedDiscount :: "(string \<rightharpoonup> real) \<Rightarrow> string option \<Rightarrow> real option" where
  "cachedDiscount memberDiscounts variationId =
     (case variationId of
        None \<Rightarrow> None
      | Some vid \<Rightarrow>
          if vid = [] then None
          else (case memberDiscounts vid of
                  None \<Rightarrow> None
                | Some d \<Rightarrow> if d = 0 then None else Some d))"

text \<open>MenuItemCard.tsx, \<open>getDiscountedPriceSync\<close>, priorities 1 to 5 in source order.\<close>

definition getDiscountedPriceSync ::
  "'a MenuItem_scheme \<Rightarrow> Member option \<Rightarrow> (string \<rightharpoonup> real) \<Rightarrow> real \<Rightarrow> string option \<Rightarrow> real" where
  "getDiscountedPriceSync item currentMember memberDiscounts base variationId =
     (let variation = getVariationById item variationId;
          rp = (case variation of None \<Rightarrow> None | Some v \<Rightarrow> reseller_price v);
          mp = (case variation of None \<Rightarrow> None | Some v \<Rightarrow> member_price v)
      in if isReseller currentMember \<and> currentMember \<noteq> None \<and> rp \<noteq> None then the rp
         else if currentMember \<noteq> None \<and> \<not> isReseller currentMember
                 \<and> map_option user_type currentMember = Some end_user \<and> mp \<noteq> None then the mp
         else if isReseller currentMember \<and> currentMember \<noteq> None
                 \<and> cachedDiscount memberDiscounts variationId \<noteq> None
              then the (cachedDiscount memberDiscounts variationId)
         else if isOnDiscount item \<and> discountPercentage item \<noteq> None
              then base - base * the (discountPercentage item)
         else base)"

section \<open>Cart lines (src/hooks/useCart.ts, \<open>addToCart\<close>)\<close>

text \<open>
  \<open>s.split(sep)\<close> for a non-empty separator, as far as the source looks at it:
  \<open>beforeFirst sep s\<close> is \<open>Some (parts[0])\<close> when \<open>parts.length > 1\<close> (the separator
  occurs, and \<open>parts[0]\<close> is what stands before its first occurrence), \<open>None\<close> when
  the separator does not occur (\<open>parts\<close> is then the one-element array of \<open>s\<close>).
\<close>

fun beforeFirst :: "string \<Rightarrow> string \<Rightarrow> string option" where
  "beforeFirst sep [] = None"
| "beforeFirst sep (c # cs) =
     (if take (length sep) (c # cs) = sep then Some []
      else map_option ((#) c) (beforeFirst sep cs))"

definition cartSeparator :: string where
  "cartSeparator = '':::CART:::''"

text \<open>
  The original menu item id of a cart line id, as \<open>addToCart\<close> recovers it:
  \<open>parts.length > 1 ? parts[0] : cartItem.id.split('-')[0]\<close>.
\<close>

definition originalMenuItemId :: "string \<Rightarrow> string" where
  "originalMenuItemId cartItemId =
     (case beforeFirst cartSeparator cartItemId of
        Some p \<Rightarrow> p
      | None \<Rightarrow> (case beforeFirst ''-'' cartItemId of Some p \<Rightarrow> p | None \<Rightarrow> cartItemId))"

text \<open>\<open>q || 1\<close> on an optional number: absent and zero are falsy.\<close>

definition orOne :: "int option \<Rightarrow> int" where
  "orOne q = (case q of None \<Rightarrow> 1 | Some n \<Rightarrow> if n = 0 then 1 else n)"

text \<open>
  The body of the \<open>reduce\<close> in \<open>normalizeAddOns\<close>. \<open>acc.find\<close> yields the first group
  with the add-on's id and the source assigns to its \<open>quantity\<close> in place
  (\<open>incrementGroup\<close>); otherwise a copy of the add-on is pushed.
\<close>

primrec incrementGroup :: "string \<Rightarrow> AddOn list \<Rightarrow> AddOn list" where
  "incrementGroup i [] = []"
| "incrementGroup i (g # gs) =
     (if addon_id g = i then g\<lparr>addon_quantity := Some (orOne (addon_quantity g) + 1)\<rparr> # gs
      else g # incrementGroup i gs)"

definition groupStep :: "AddOn list \<Rightarrow> AddOn \<Rightarrow> AddOn list" where
  "groupStep acc addOn =
     (case find (\<lambda>g. addon_id g = addon_id addOn) acc of
        Some existing \<Rightarrow> incrementGroup (addon_id addOn) acc
      | None \<Rightarrow> acc @ [addOn\<lparr>addon_quantity := Some (orOne (addon_quantity addOn))\<rparr>])"

text \<open>
  \<open>normalizeAddOns\<close>. \<open>a.id.localeCompare(b.id)\<close> depends on the locale: the model takes
  the collation key \<open>collate\<close> of an id as a parameter, and the (stable) \<open>Array.sort\<close>
  is the stable \<open>sort_key\<close>.
\<close>

definition normalizeAddOns :: "(string \<Rightarrow> 'k::linorder) \<Rightarrow> AddOn list option \<Rightarrow> AddOn list" where
  "normalizeAddOns collate addOns =
     (case addOns of
        None \<Rightarrow> []
      | Some as \<Rightarrow>
          if as = [] then []
          else sort_key (\<lambda>a. collate (addon_id a)) (foldl groupStep [] as))"

text \<open>Decimal rendering of an integer, as a template literal renders a whole number.\<close>

definition digitChar :: "nat \<Rightarrow> char" where
  "digitChar d = char_of (48 + d)"

function showNat :: "nat \<Rightarrow> string" where
  "showNat n = (if n < 10 then [digitChar n] else showNat (n div 10) @ [digitChar (n mod 10)])"
  by pat_completeness auto
termination
  by (relation "measure (\<lambda>n. n)") auto

declare showNat.simps [simp del]

definition showInt :: "int \<Rightarrow> string" where
  "showInt i = (if i < 0 then ''-'' @ showNat (nat (- i)) else showNat (nat i))"

text \<open>\<open>Array.join(',')\<close>.\<close>

fun joinComma :: "string list \<Rightarrow> string" where
  "joinComma [] = []"
| "joinComma [s] = s"
| "joinComma (s # t # ts) = s @ '','' @ joinComma (t # ts)"

text \<open>
  \<open>createItemKey\<close>. \<open>addOnLabel\<close> is the template literal \<open>id:quantity\<close>. The
  default \<open>Array.sort()\<close> orders these strings by character code, the lexicographic
  order on \<open>string\<close>; an empty variation id and an empty joined add-on key are falsy and
  become \<open>none\<close>.
\<close>

definition addOnLabel :: "AddOn \<Rightarrow> string" where
  "addOnLabel a =
     addon_id a @ '':'' @ (case addon_quantity a of Some q \<Rightarrow> showInt q | None \<Rightarrow> ''undefined'')"

definition addOnsKey :: "(string \<Rightarrow> 'k::linorder) \<Rightarrow> AddOn list option \<Rightarrow> string" where
  "addOnsKey collate addOns =
     (let joined = joinComma (sort (map addOnLabel (normalizeAddOns collate addOns)))
      in if joined = [] then ''none'' else joined)"

definition createItemKey ::
  "(string \<Rightarrow> 'k::linorder) \<Rightarrow> string \<Rightarrow> Variation option \<Rightarrow> AddOn list option \<Rightarrow> string" where
  "createItemKey collate menuItemId variation addOns =
     (let variationKey = (case variation of
                            None \<Rightarrow> ''none''
                          | Some v \<Rightarrow> if variation_id v = [] then ''none'' else variation_id v)
      in menuItemId @ ''|'' @ variationKey @ ''|'' @ addOnsKey collate addOns)"

text \<open>The key \<open>addToCart\<close> computes for a line already in the cart.\<close>

definition cartItemKey :: "(string \<Rightarrow> 'k::linorder) \<Rightarrow> CartItem \<Rightarrow> string" where
  "cartItemKey collate cartItem =
     createItemKey collate (originalMenuItemId (item_id cartItem)) (selectedVariation cartItem)
       (selectedAddOns cartItem)"

text \<open>
  \<open>prev.map(cartItem => cartItem === existingItem ? {...cartItem, quantity: ...} : cartItem)\<close>
  with \<open>existingItem = prev.find(...)\<close>: \<open>===\<close> is object identity, so exactly the first
  matching line is replaced.
\<close>

primrec incrementExisting :: "(CartItem \<Rightarrow> bool) \<Rightarrow> int \<Rightarrow> CartItem list \<Rightarrow> CartItem list" where
  "incrementExisting P q [] = []"
| "incrementExisting P q (c # cs) =
     (if P c then c\<lparr>quantity := quantity c + q\<rparr> # cs else c # incrementExisting P q cs)"

text \<open>
  The line \<open>addToCart\<close> builds for a new configuration. \<open>stamp\<close> stands for
  \<open>Date.now() + '-' + Math.random().toString(36).substr(2, 9)\<close>, an input of the model.
\<close>

definition newCartItem ::
  "(string \<Rightarrow> 'k::linorder) \<Rightarrow> Member option \<Rightarrow> string \<Rightarrow> MenuItem \<Rightarrow> int \<Rightarrow> Variation option \<Rightarrow>
   AddOn list option \<Rightarrow> real option \<Rightarrow> CartItem" where
  "newCartItem collate currentMember stamp item qty variation addOns effectiveUnitPrice =
     \<lparr>item_id = item_id item @ cartSeparator @ stamp,
      item_name = item_name item,
      basePrice = basePrice item,
      isOnDiscount = isOnDiscount item,
      discountPercentage = discountPercentage item,
      variations = variations item,
      customFields = customFields item,
      quantity = qty,
      selectedVariation = variation,
      selectedAddOns = Some (normalizeAddOns collate addOns),
      totalPrice = (case effectiveUnitPrice of
                      Some p \<Rightarrow> p
                    | None \<Rightarrow> calculateItemPrice currentMember item variation addOns),
      effectiveUnitPriceOverride = effectiveUnitPrice\<rparr>"

text \<open>
  \<open>addToCart\<close>, as the state update \<open>setCartItems(prev => ...)\<close> it performs. The caller
  supplies the quantity (the source defaults it to 1).
\<close>

definition addToCart ::
  "(string \<Rightarrow> 'k::linorder) \<Rightarrow> Member option \<Rightarrow> string \<Rightarrow> MenuItem \<Rightarrow> int \<Rightarrow> Variation option \<Rightarrow>
   AddOn list option \<Rightarrow> real option \<Rightarrow> CartItem list \<Rightarrow> CartItem list" where
  "addToCart collate currentMember stamp item qty variation addOns effectiveUnitPrice prev =
     (let newItemKey = createItemKey collate (item_id item) variation addOns;
          sameKey = (\<lambda>cartItem. cartItemKey collate cartItem = newItemKey)
      in case find sameKey prev of
           Some existingItem \<Rightarrow> incrementExisting sameKey qty prev
         | None \<Rightarrow>
             newCartItem collate currentMember stamp item qty variation addOns effectiveUnitPrice
               # prev)"

text \<open>
  MenuItemCard.tsx, \<open>handleItemSelect\<close>: the unit price handed to \<open>onAddToCart\<close>
  (\<open>v\<close> is \<open>variation || selectedVariation\<close>).
\<close>

definition handleItemSelectPrice ::
  "MenuItem \<Rightarrow> Member option \<Rightarrow> (string \<rightharpoonup> real) \<Rightarrow> Variation option \<Rightarrow> real" where
  "handleItemSelectPrice item currentMember memberDiscounts v =
     basePrice item
       + (case v of
            None \<Rightarrow> 0
          | Some var \<Rightarrow>
              getDiscountedPriceSync item currentMember memberDiscounts (price var)
                (Some (variation_id var)))"

text \<open>
  Well-formedness of an add-on list as the cart receives it: a quantity, where given, is
  not negative.
\<close>

definition quantityOk :: "AddOn \<Rightarrow> bool" where
  "quantityOk a = (case addon_quantity a of None \<Rightarrow> True | Some q \<Rightarrow> 0 \<le> q)"

definition nonNegativeQuantities :: "AddOn list option \<Rightarrow> bool" where
  "nonNegativeQuantities addOns =
     (case addOns of None \<Rightarrow> True | Some as \<Rightarrow> list_all quantityOk as)"

text \<open>
  What the grouping pass of \<open>normalizeAddOns\<close> establishes on such lists: one group per
  id, each with a quantity of at least one.
\<close>

definition goodGroups :: "AddOn list \<Rightarrow> bool" where
  "goodGroups gs =
     (distinct (map addon_id gs)
      \<and> list_all (\<lambda>g. case addon_quantity g of None \<Rightarrow> False | Some q \<Rightarrow> 1 \<le> q) gs)"

text \<open>
  The add-ons of a signature as the specification describes them: each add-on is its id
  with its quantity, the quantity defaulting to 1. Two add-on lists are the same multiset
  of add-ons when the multisets of these pairs agree.
\<close>

definition signaturePairs :: "AddOn list option \<Rightarrow> (string \<times> int) list" where
  "signaturePairs addOns =
     (case addOns of
        None \<Rightarrow> []
      | Some as \<Rightarrow> map (\<lambda>a. (addon_id a, case addon_quantity a of None \<Rightarrow> 1 | Some n \<Rightarrow> n)) as)"

section \<open>Cart start-up (src/hooks/useCart.ts, the \<open>useState\<close> initializer)\<close>

text \<open>
  A call that may throw: \<open>localStorage.getItem\<close> and \<open>JSON.parse\<close> are inputs of the
  model, each with its outcome.
\<close>

datatype 'a outcome = Throws | Returns 'a

text \<open>
  The \<open>try\<close> block of the initializer: \<open>Returns (Some items)\<close> is its \<open>return\<close>,
  \<open>Returns None\<close> is falling out of the block (nothing saved, or the empty string,
  which is falsy), \<open>Throws\<close> an exception raised inside it.
\<close>

definition loadSavedCartItems ::
  "string option outcome \<Rightarrow> (string \<Rightarrow> CartItem list outcome) \<Rightarrow> CartItem list option outcome" where
  "loadSavedCartItems getItem parse =
     (case getItem of
        Throws \<Rightarrow> Throws
      | Returns savedCartItems \<Rightarrow>
          (case savedCartItems of
             None \<Rightarrow> Returns None
           | Some text \<Rightarrow>
               if text = [] then Returns None
               else (case parse text of
                       Throws \<Rightarrow> Throws
                     | Returns items \<Rightarrow> Returns (Some items))))"

text \<open>The initializer: the \<open>catch\<close> logs and falls through to \<open>return []\<close>.\<close>

definition initialCartItems ::
  "string option outcome \<Rightarrow> (string \<Rightarrow> CartItem list outcome) \<Rightarrow> CartItem list outcome" where
  "initialCartItems getItem parse =
     (case loadSavedCartItems getItem parse of
        Returns (Some items) \<Rightarrow> Returns items
      | Returns None \<Rightarrow> Returns []
      | Throws \<Rightarrow> Returns [])"

section \<open>Member session (src/context/MemberAuthContext.tsx)\<close>

text \<open>
  An awaited backend query inside \<open>try\<close>: the promise rejects, or resolves to
  \<open>{data, error}\<close>.
\<close>

datatype 'a response = Rejected | Resolved "'a option" "string option"

text \<open>
  The query builder's \<open>.single()\<close>: the row when exactly one row matches, otherwise no
  data and an error.
\<close>

definition single :: "'a list \<Rightarrow> 'a response" where
  "single rows =
     (case rows of [r] \<Rightarrow> Resolved (Some r) None | _ \<Rightarrow> Resolved None (Some ''not a single row''))"

definition selectByEmail :: "Member list \<Rightarrow> string \<Rightarrow> Member response" where
  "selectByEmail members e = single (filter (\<lambda>m. email m = e) members)"

text \<open>
  What the provider reads and writes: its \<open>currentMember\<close> state, the \<open>member_id\<close> entry
  of local storage, and the events dispatched on \<open>window\<close> (oldest first).
\<close>

record Session =
  currentMember :: "Member option"
  stored_member_id :: "string option"
  dispatched :: "string list"

datatype auth_error =
    InvalidCredentials | InactiveAccount | LoginFailed
  | DuplicateEmail | DuplicateUsername | InsertError string | RegistrationFailed | RegistrationError

text \<open>The \<open>error\<close> string of the returned \<open>{success: false, error}\<close>.\<close>

fun errorMessage :: "auth_error \<Rightarrow> string" where
  "errorMessage InvalidCredentials = ''Invalid email or password''"
| "errorMessage InactiveAccount = ''Account is inactive''"
| "errorMessage LoginFailed = ''An error occurred during login''"
| "errorMessage DuplicateEmail = ''Email already registered''"
| "errorMessage DuplicateUsername = ''Username already taken''"
| "errorMessage (InsertError msg) = msg"
| "errorMessage RegistrationFailed = ''Registration failed''"
| "errorMessage RegistrationError = ''An error occurred during registration''"

text \<open>
  \<open>verifyPassword\<close>; \<open>hashPassword\<close> (SHA-256 of the password, in hex, computed by the
  browser) is the parameter \<open>hash\<close>.
\<close>

definition verifyPassword :: "(string \<Rightarrow> string) \<Rightarrow> string \<Rightarrow> string \<Rightarrow> bool" where
  "verifyPassword hash password h = (hash password = h)"

text \<open>
  The session after \<open>localStorage.setItem('member_id', ...)\<close>, \<open>setCurrentMember\<close> and
  \<open>window.dispatchEvent(new CustomEvent('memberAuthUpdate'))\<close>.
\<close>

definition establishSession :: "Member \<Rightarrow> Session \<Rightarrow> Session" where
  "establishSession m s =
     s\<lparr>stored_member_id := Some (member_id m),
       currentMember := Some m,
       dispatched := dispatched s @ [''memberAuthUpdate'']\<rparr>"

text \<open>
  \<open>login\<close>: \<open>found\<close> is the outcome of the query by \<open>data.email\<close>. \<open>Inr member\<close> is
  \<open>{success: true, member}\<close>.
\<close>

definition login ::
  "(string \<Rightarrow> string) \<Rightarrow> Member response \<Rightarrow> string \<Rightarrow> Session \<Rightarrow> (auth_error + Member) \<times> Session" where
  "login hash found password s =
     (case found of
        Rejected \<Rightarrow> (Inl LoginFailed, s)
      | Resolved member err \<Rightarrow>
          (case (err, member) of
             (None, Some m) \<Rightarrow>
               if status m \<noteq> ''active'' then (Inl InactiveAccount, s)
               else if \<not> verifyPassword hash password (password_hash m)
                 then (Inl InvalidCredentials, s)
               else (Inr m, establishSession m s)
           | _ \<Rightarrow> (Inl InvalidCredentials, s)))"

text \<open>
  \<open>register\<close>: \<open>existingEmail\<close> and \<open>existingUsername\<close> are the outcomes of the two
  look-ups (only their \<open>data\<close> is read), \<open>insertMember\<close> the backend's answer to the inserted
  row, whose id the backend assigns.
\<close>

record CreateMemberData =
  new_username :: string
  new_email :: string
  new_password :: string

definition register ::
  "(string \<Rightarrow> string) \<Rightarrow> Member response \<Rightarrow> Member response \<Rightarrow> (Member \<Rightarrow> Member response) \<Rightarrow>
   CreateMemberData \<Rightarrow> Session \<Rightarrow> (auth_error + Member) \<times> Session" where
  "register hash existingEmail existingUsername insertMember d s =
     (case existingEmail of
        Rejected \<Rightarrow> (Inl RegistrationError, s)
      | Resolved (Some _) _ \<Rightarrow> (Inl DuplicateEmail, s)
      | Resolved None _ \<Rightarrow>
          (case existingUsername of
             Rejected \<Rightarrow> (Inl RegistrationError, s)
           | Resolved (Some _) _ \<Rightarrow> (Inl DuplicateUsername, s)
           | Resolved None _ \<Rightarrow>
               (case insertMember \<lparr>member_id = [], username = new_username d, email = new_email d,
                              user_type = end_user, status = ''active'',
                              password_hash = hash (new_password d)\<rparr> of
                  Rejected \<Rightarrow> (Inl RegistrationError, s)
                | Resolved newMember (Some msg) \<Rightarrow> (Inl (InsertError msg), s)
                | Resolved (Some m) None \<Rightarrow> (Inr m, establishSession m s)
                | Resolved None None \<Rightarrow> (Inl RegistrationFailed, s))))"

text \<open>\<open>logout\<close>: \<open>localStorage.removeItem('member_id')\<close> and \<open>setCurrentMember(null)\<close>.\<close>

definition logout :: "Session \<Rightarrow> Session" where
  "logout s = s\<lparr>stored_member_id := None, currentMember := None\<rparr>"

section \<open>Checkout (the Checkout component)\<close>

text \<open>
  \<open>getOriginalMenuItemId\<close>: \<open>parts.length > 1 ? parts[0] : cartItemId\<close> (unlike the
  cart, no fallback to the text before a dash).
\<close>

definition getOriginalMenuItemId :: "string \<Rightarrow> string" where
  "getOriginalMenuItemId cartItemId =
     (case beforeFirst cartSeparator cartItemId of Some p \<Rightarrow> p | None \<Rightarrow> cartItemId)"

definition gameOf :: "CartItem \<Rightarrow> string" where
  "gameOf item = getOriginalMenuItemId (item_id item)"

text \<open>\<open>item.customFields && item.customFields.length > 0\<close>.\<close>

definition hasCustomFields :: "CartItem \<Rightarrow> bool" where
  "hasCustomFields item = (case customFields item of None \<Rightarrow> False | Some fs \<Rightarrow> fs \<noteq> [])"

text \<open>
  A JavaScript \<open>Map\<close> as the list of its entries in insertion order: \<open>map_of\<close> is
  \<open>get\<close>/\<open>has\<close>, \<open>mapSet\<close> is \<open>set\<close> (a present key keeps its place, a new key goes
  last).
\<close>

fun mapSet :: "'k \<Rightarrow> 'v \<Rightarrow> ('k \<times> 'v) list \<Rightarrow> ('k \<times> 'v) list" where
  "mapSet k v [] = [(k, v)]"
| "mapSet k v ((k', v') # es) = (if k' = k then (k, v) # es else (k', v') # mapSet k v es)"

text \<open>
  \<open>itemsWithCustomFields\<close>: the values of \<open>uniqueItems\<close>, which the \<open>forEach\<close> fills
  (\<open>rememberFirst\<close> is its body).
\<close>

definition rememberFirst :: "(string \<times> CartItem) list \<Rightarrow> CartItem \<Rightarrow> (string \<times> CartItem) list" where
  "rememberFirst uniqueItems item =
     (if map_of uniqueItems (gameOf item) \<noteq> None then uniqueItems
      else mapSet (gameOf item) item uniqueItems)"

definition itemsWithCustomFields :: "CartItem list \<Rightarrow> CartItem list" where
  "itemsWithCustomFields cartItems =
     map snd (foldl rememberFirst [] (filter hasCustomFields cartItems))"

definition hasAnyCustomFields :: "CartItem list \<Rightarrow> bool" where
  "hasAnyCustomFields cartItems = (itemsWithCustomFields cartItems \<noteq> [])"

text \<open>\<open>item.selectedVariation?.id || 'default'\<close>.\<close>

definition variationIdOf :: "CartItem \<Rightarrow> string" where
  "variationIdOf item =
     (case selectedVariation item of
        None \<Rightarrow> ''default''
      | Some v \<Rightarrow> if variation_id v = [] then ''default'' else variation_id v)"

text \<open>
  \<open>itemsByGameAndVariation\<close>: \<open>null\<close> outside multiple-accounts mode, otherwise the
  nested \<open>Map\<close> the \<open>forEach\<close> fills (a missing game gets an empty map, a missing
  variation an empty array, and the line is pushed).
\<close>

definition groupStepCheckout ::
  "(string \<times> (string \<times> CartItem list) list) list \<Rightarrow> CartItem \<Rightarrow>
   (string \<times> (string \<times> CartItem list) list) list" where
  "groupStepCheckout grouped item =
     (let variationsMap = (case map_of grouped (gameOf item) of None \<Rightarrow> [] | Some vm \<Rightarrow> vm);
          items = (case map_of variationsMap (variationIdOf item) of None \<Rightarrow> [] | Some xs \<Rightarrow> xs)
      in mapSet (gameOf item) (mapSet (variationIdOf item) (items @ [item]) variationsMap) grouped)"

definition itemsByGameAndVariation ::
  "bool \<Rightarrow> CartItem list \<Rightarrow> (string \<times> (string \<times> CartItem list) list) list option" where
  "itemsByGameAndVariation multi cartItems =
     (if \<not> multi then None else Some (foldl groupStepCheckout [] cartItems))"

datatype step = details | payment | summary

datatype OrderStatus = pending | processing | approved | rejected

text \<open>
  The component's state, as far as the modelled handlers read or write it, together with
  the \<open>current_order_id\<close> entry of local storage.
\<close>

record Checkout =
  step :: step
  customFieldValues :: "string \<rightharpoonup> utf16"
  useMultipleAccounts :: bool
  orderId :: "string option"
  existingOrderStatus :: "OrderStatus option"
  existingOrderId :: "string option"
  isCheckingExistingOrder :: bool
  current_order_id :: "string option"

text \<open>
  \<open>String.prototype.trim\<close> strips, at both ends, the code units that ECMAScript calls
  white space or line terminators: tab, line feed, vertical tab, form feed, carriage
  return, space, no-break space (U+00A0), U+1680, U+2000 to U+200A, the line and paragraph
  separators U+2028 and U+2029, U+202F, U+205F, U+3000 and the byte order mark U+FEFF.
\<close>

definition isWhitespace :: "16 word \<Rightarrow> bool" where
  "isWhitespace c =
     (c \<in> {0x0009, 0x000A, 0x000B, 0x000C, 0x000D, 0x0020, 0x00A0, 0x1680, 0x2028, 0x2029,
             0x202F, 0x205F, 0x3000, 0xFEFF}
      \<or> (0x2000 \<le> c \<and> c \<le> 0x200A))"

definition trim :: "utf16 \<Rightarrow> utf16" where
  "trim s = rev (dropWhile isWhitespace (rev (dropWhile isWhitespace s)))"

text \<open>\<open>customFieldValues[valueKey]?.trim() || false\<close>, as a condition.\<close>

definition filled :: "(string \<rightharpoonup> utf16) \<Rightarrow> string \<Rightarrow> bool" where
  "filled vals valueKey = (case vals valueKey of None \<Rightarrow> False | Some v \<Rightarrow> trim v \<noteq> [])"

text \<open>\<open>isDetailsValid\<close>, branch by branch.\<close>

definition isDetailsValid :: "Checkout \<Rightarrow> CartItem list \<Rightarrow> bool" where
  "isDetailsValid st cartItems =
     (case (if useMultipleAccounts st
            then itemsByGameAndVariation (useMultipleAccounts st) cartItems else None) of
        Some grouped \<Rightarrow>
          if hasAnyCustomFields cartItems then
            list_all (\<lambda>(gameId, variationsMap).
              case find (\<lambda>item. gameOf item = gameId) cartItems of
                None \<Rightarrow> True
              | Some firstItem \<Rightarrow>
                  (case customFields firstItem of
                     None \<Rightarrow> True
                   | Some fs \<Rightarrow>
                       list_all (\<lambda>(variationId, items).
                         list_all (\<lambda>field.
                           if \<not> required field then True
                           else filled (customFieldValues st)
                                  (gameOf firstItem @ ''_'' @ variationId @ ''_'' @ field_key field))
                           fs)
                         variationsMap))
              grouped
          else
            list_all (\<lambda>(gameId, variationsMap).
              list_all (\<lambda>(variationId, items).
                filled (customFieldValues st) (''default_'' @ gameId @ ''_'' @ variationId @ ''_ign''))
                variationsMap)
              grouped
      | None \<Rightarrow>
          if \<not> hasAnyCustomFields cartItems then filled (customFieldValues st) ''default_ign''
          else
            list_all (\<lambda>item.
              case customFields item of
                None \<Rightarrow> True
              | Some fs \<Rightarrow>
                  list_all (\<lambda>field.
                    if \<not> required field then True
                    else filled (customFieldValues st) (gameOf item @ ''_'' @ field_key field))
                    fs)
              (itemsWithCustomFields cartItems))"

text \<open>
  The Proceed to Payment button: \<open>disabled={!isDetailsValid}\<close>, and
  \<open>handleProceedToPayment\<close> on a click that gets through.
\<close>

definition clickProceedToPayment :: "Checkout \<Rightarrow> CartItem list \<Rightarrow> Checkout" where
  "clickProceedToPayment st cartItems =
     (if isDetailsValid st cartItems then st\<lparr>step := payment\<rparr> else st)"

text \<open>
  The \<open>onChange\<close> of the Multiple Accounts checkbox; \<open>checked\<close> is
  \<open>e.target.checked\<close>.
\<close>

definition toggleMultipleAccounts :: "bool \<Rightarrow> Checkout \<Rightarrow> Checkout" where
  "toggleMultipleAccounts checked st =
     (let st1 = st\<lparr>useMultipleAccounts := checked\<rparr>
      in if \<not> checked then st1\<lparr>customFieldValues := Map.empty\<rparr> else st1)"

subsection \<open>The required fields, in the spec's words\<close>

text \<open>
  Following the spec (section 4.4, details): in single-account mode one value per distinct
  menu item needing fields and field, or the one default in-game-name field when no item
  defines custom fields; in multiple-accounts mode one value set per (item, variation)
  pair, the fields being those of the item (its first line in the cart), or the default
  in-game name of the pair when no item defines custom fields. \<open>requiredFieldKeys\<close> lists
  the keys of \<open>customFieldValues\<close> under which the required ones are stored; a value is
  blank when it is missing, empty or whitespace only.
\<close>

definition itemFields :: "CartItem \<Rightarrow> CustomField list" where
  "itemFields item = (case customFields item of None \<Rightarrow> [] | Some fs \<Rightarrow> fs)"

definition gameFields :: "CartItem list \<Rightarrow> string \<Rightarrow> CustomField list" where
  "gameFields cartItems g =
     (case find (\<lambda>item. gameOf item = g) cartItems of None \<Rightarrow> [] | Some item \<Rightarrow> itemFields item)"

definition requiredFieldKeys :: "bool \<Rightarrow> CartItem list \<Rightarrow> string list" where
  "requiredFieldKeys multi cartItems =
     (let needing = filter hasCustomFields cartItems;
          pairs = remdups (map (\<lambda>item. (gameOf item, variationIdOf item)) cartItems)
      in if multi then
           (if needing = [] then map (\<lambda>(g, v). ''default_'' @ g @ ''_'' @ v @ ''_ign'') pairs
            else concat (map (\<lambda>(g, v). map (\<lambda>f. g @ ''_'' @ v @ ''_'' @ field_key f)
                                          (filter required (gameFields cartItems g))) pairs))
         else
           (if needing = [] then [''default_ign'']
            else concat (map (\<lambda>item. map (\<lambda>f. gameOf item @ ''_'' @ field_key f)
                                        (filter required (itemFields item)))
                           (filter (\<lambda>item. find (\<lambda>i. gameOf i = gameOf item) needing = Some item)
                              needing))))"

definition blankValue :: "(string \<rightharpoonup> utf16) \<Rightarrow> string \<Rightarrow> bool" where
  "blankValue vals k = (case vals k of None \<Rightarrow> True | Some v \<Rightarrow> list_all isWhitespace v)"

text \<open>The (game, variation) pairs of a nested map.\<close>

definition pairsOf :: "('a \<times> ('b \<times> 'c) list) list \<Rightarrow> ('a \<times> 'b) set" where
  "pairsOf grouped = {(g, v). \<exists>vm. (g, vm) \<in> set grouped \<and> v \<in> fst ` set vm}"

subsection \<open>Resuming an order (\<open>checkExistingOrder\<close>)\<close>

text \<open>
  An order as \<open>fetchOrderById\<close> returns it. \<open>customer_info\<close> is a JSON object:
  \<open>info_entries\<close> are its string-valued properties in \<open>Object.entries\<close> order,
  \<open>multiple_accounts\<close> its \<open>Multiple Accounts\<close> property (an array, truthy even when empty).
\<close>

record Account =
  game :: string
  package :: string
  account_fields :: "(string \<times> utf16) list"

record CustomerInfo =
  info_entries :: "(string \<times> utf16) list"
  multiple_accounts :: "Account list option"

record Order =
  order_id :: string
  order_status :: OrderStatus
  customer_info :: "CustomerInfo option"

text \<open>
  Multiple-accounts branch, the body of \<open>accounts.forEach\<close>: the matching cart line is
  found by game name and package name, and each field's stored value (by label, when
  non-empty) goes under the line's game, variation and field key.
\<close>

definition loadAccount ::
  "CartItem list \<Rightarrow> (string \<rightharpoonup> utf16) \<Rightarrow> Account \<Rightarrow> (string \<rightharpoonup> utf16)" where
  "loadAccount cartItems loadedValues account =
     (case find (\<lambda>item. item_name item = game account
                        \<and> map_option variation_name (selectedVariation item) = Some (package account))
             cartItems of
        None \<Rightarrow> loadedValues
      | Some matchingItem \<Rightarrow>
          if hasAnyCustomFields cartItems \<and> customFields matchingItem \<noteq> None then
            foldl (\<lambda>loaded field.
                     case map_of (account_fields account) (field_label field) of
                       None \<Rightarrow> loaded
                     | Some fieldValue \<Rightarrow>
                         if fieldValue = [] then loaded
                         else loaded(gameOf matchingItem @ ''_'' @ variationIdOf matchingItem
                                       @ ''_'' @ field_key field \<mapsto> fieldValue))
              loadedValues (itemFields matchingItem)
          else
            (case map_of (account_fields account) ''IGN'' of
               None \<Rightarrow> loadedValues
             | Some ignValue \<Rightarrow>
                 if ignValue = [] then loadedValues
                 else loadedValues(''default_'' @ gameOf matchingItem @ ''_''
                                     @ variationIdOf matchingItem @ ''_ign'' \<mapsto> ignValue)))"

text \<open>
  The assignments \<open>loadedValues[valueKey] = ...\<close> that this body makes for one account,
  in the order it makes them: what \<open>loadAccount\<close> does is to perform them
  (\<open>loadAccount_writes\<close>), and a later assignment to a key replaces an earlier one.
\<close>

definition accountWrites :: "CartItem list \<Rightarrow> Account \<Rightarrow> (string \<times> utf16) list" where
  "accountWrites cartItems account =
     (case find (\<lambda>item. item_name item = game account
                        \<and> map_option variation_name (selectedVariation item) = Some (package account))
             cartItems of
        None \<Rightarrow> []
      | Some matchingItem \<Rightarrow>
          if hasAnyCustomFields cartItems \<and> customFields matchingItem \<noteq> None then
            concat (map (\<lambda>field.
                           case map_of (account_fields account) (field_label field) of
                             None \<Rightarrow> []
                           | Some fieldValue \<Rightarrow>
                               if fieldValue = [] then []
                               else [(gameOf matchingItem @ ''_'' @ variationIdOf matchingItem
                                        @ ''_'' @ field_key field, fieldValue)])
                      (itemFields matchingItem))
          else
            (case map_of (account_fields account) ''IGN'' of
               None \<Rightarrow> []
             | Some ignValue \<Rightarrow>
                 if ignValue = [] then []
                 else [(''default_'' @ gameOf matchingItem @ ''_'' @ variationIdOf matchingItem
                          @ ''_ign'', ignValue)]))"

text \<open>
  Single-account branch, the body of \<open>Object.entries(order.customer_info).forEach\<close>:
  the payment method is skipped; a value goes under every field whose label is the
  entry's key, or under \<open>default_ign\<close> for the key \<open>IGN\<close> when no item defines fields.
\<close>

definition loadEntry ::
  "CartItem list \<Rightarrow> (string \<rightharpoonup> utf16) \<Rightarrow> string \<times> utf16 \<Rightarrow> (string \<rightharpoonup> utf16)" where
  "loadEntry cartItems loadedValues entry =
     (case entry of (key, val) \<Rightarrow>
        if key = ''Payment Method'' then loadedValues
        else if hasAnyCustomFields cartItems then
          foldl (\<lambda>loaded item.
                   foldl (\<lambda>loaded' field.
                            if field_label field = key
                            then loaded'(gameOf item @ ''_'' @ field_key field \<mapsto> val)
                            else loaded')
                     loaded (itemFields item))
            loadedValues (itemsWithCustomFields cartItems)
        else if key = ''IGN'' then loadedValues(''default_ign'' \<mapsto> val)
        else loadedValues)"

definition loadedValuesOf :: "CartItem list \<Rightarrow> CustomerInfo \<Rightarrow> (string \<rightharpoonup> utf16)" where
  "loadedValuesOf cartItems info =
     (case multiple_accounts info of
        Some accounts \<Rightarrow> foldl (loadAccount cartItems) Map.empty accounts
      | None \<Rightarrow> foldl (loadEntry cartItems) Map.empty (info_entries info))"

text \<open>
  The block guarded by \<open>order.status === 'rejected' && order.customer_info\<close>. The source
  calls \<open>setCustomFieldValues(prev => ({...prev, ...loadedValues}))\<close> only when something
  was loaded; merging nothing leaves the values as they are, so the model merges always.
\<close>

definition loadCustomerInfo :: "CartItem list \<Rightarrow> CustomerInfo \<Rightarrow> Checkout \<Rightarrow> Checkout" where
  "loadCustomerInfo cartItems info st =
     st\<lparr>useMultipleAccounts := (multiple_accounts info \<noteq> None),
        customFieldValues := customFieldValues st ++ loadedValuesOf cartItems info\<rparr>"

text \<open>
  \<open>checkExistingOrder\<close>, run on mount. \<open>fetchOrderById\<close> (of the orders hook) is a
  parameter: the order, or nothing when it is not found.
\<close>

definition checkExistingOrder ::
  "(string \<Rightarrow> Order option) \<Rightarrow> CartItem list \<Rightarrow> Checkout \<Rightarrow> Checkout" where
  "checkExistingOrder fetchOrderById cartItems st =
     (case current_order_id st of
        None \<Rightarrow> st\<lparr>isCheckingExistingOrder := False\<rparr>
      | Some storedOrderId \<Rightarrow>
          if storedOrderId = [] then st\<lparr>isCheckingExistingOrder := False\<rparr>
          else
            (case fetchOrderById storedOrderId of
               None \<Rightarrow> st\<lparr>current_order_id := None, isCheckingExistingOrder := False\<rparr>
             | Some order \<Rightarrow>
                 (let st1 = st\<lparr>existingOrderId := Some (order_id order),
                               existingOrderStatus := Some (order_status order),
                               orderId := Some (order_id order)\<rparr>;
                      st2 = (if order_status order = rejected
                             then (case customer_info order of
                                     None \<Rightarrow> st1
                                   | Some info \<Rightarrow> loadCustomerInfo cartItems info st1)
                             else st1);
                      st3 = (if order_status order = approved \<or> order_status order = rejected
                             then (let cleared = st2\<lparr>current_order_id := None\<rparr>
                                   in if order_status order = approved
                                      then cleared\<lparr>existingOrderStatus := None,
                                                   existingOrderId := None, orderId := None\<rparr>
                                      else cleared)
                             else st2)
                  in st3\<lparr>isCheckingExistingOrder := False\<rparr>)))"

section \<open>Example data\<close>

definition exVariation :: Variation where
  "exVariation = \<lparr>variation_id = ''v1'', variation_name = ''100 Gems'', price = 100,
                   member_price = Some 95, reseller_price = Some 90\<rparr>"

definition exItem :: MenuItem where
  "exItem = \<lparr>item_id = ''g1'', item_name = ''Game1'', basePrice = 0, isOnDiscount = True,
              discountPercentage = Some (1 / 10), variations = Some [exVariation],
              customFields = None\<rparr>"


definition exAddOn :: "string \<Rightarrow> int option \<Rightarrow> AddOn" where
  "exAddOn i q = \<lparr>addon_id = i, addon_name = ''extra'', addon_price = 5, addon_quantity = q\<rparr>"

definition exLine :: "string \<Rightarrow> int \<Rightarrow> AddOn list option \<Rightarrow> real option \<Rightarrow> CartItem" where
  "exLine cid q addOns override =
     \<lparr>item_id = cid, item_name = ''Game1'', basePrice = 0, isOnDiscount = True,
      discountPercentage = Some (1 / 10), variations = Some [exVariation], customFields = None,
      quantity = q, selectedVariation = Some exVariation, selectedAddOns = addOns,
      totalPrice = 100, effectiveUnitPriceOverride = override\<rparr>"

definition exSession :: Session where
  "exSession = \<lparr>currentMember = None, stored_member_id = None, dispatched = []\<rparr>"

definition exParse :: "string \<Rightarrow> CartItem list outcome" where
  "exParse text = (if text = ''[]'' then Returns [] else Throws)"

definition exHash :: "string \<Rightarrow> string" where
  "exHash password = ''#'' @ password"

definition exActive :: Member where
  "exActive = \<lparr>member_id = ''m2'', username = ''a'', email = ''a@x'', user_type = end_user,
                status = ''active'', password_hash = ''#pw''\<rparr>"

definition exInactive :: Member where
  "exInactive = \<lparr>member_id = ''m3'', username = ''i'', email = ''i@x'', user_type = end_user,
                  status = ''inactive'', password_hash = ''#pw''\<rparr>"

definition exMembers :: "Member list" where
  "exMembers = [exActive, exInactive]"

definition exField :: "string \<Rightarrow> bool \<Rightarrow> CustomField" where
  "exField k r = \<lparr>field_key = k, field_label = k, required = r\<rparr>"

definition exGame :: "string \<Rightarrow> string \<Rightarrow> CustomField list option \<Rightarrow> CartItem" where
  "exGame cid vid fs =
     \<lparr>item_id = cid, item_name = ''Game1'', basePrice = 0, isOnDiscount = False,
      discountPercentage = None, variations = None, customFields = fs, quantity = 1,
      selectedVariation = Some \<lparr>variation_id = vid, variation_name = vid, price = 100,
                                member_price = None, reseller_price = None\<rparr>,
      selectedAddOns = None, totalPrice = 100, effectiveUnitPriceOverride = None\<rparr>"

definition exCart :: "CartItem list" where
  "exCart = [exGame ''g1:::CART:::a'' ''v1'' (Some [exField ''ign'' True, exField ''srv'' False]),
             exGame ''g1:::CART:::b'' ''v2'' (Some [exField ''ign'' True, exField ''srv'' False]),
             exGame ''g2:::CART:::c'' ''v1'' None]"

definition exCheckout :: Checkout where
  "exCheckout = \<lparr>step = details, customFieldValues = Map.empty, useMultipleAccounts = False,
                  orderId = None, existingOrderStatus = None, existingOrderId = None,
                  isCheckingExistingOrder = True, current_order_id = None\<rparr>"

definition exMounted :: Checkout where
  "exMounted = exCheckout\<lparr>current_order_id := Some ''o1''\<rparr>"

definition exRejected :: Order where
  "exRejected = \<lparr>order_id = ''o1'', order_status = rejected,
                  customer_info = Some \<lparr>info_entries = [(''Payment Method'', codeUnits ''GCash''), (''ign'', codeUnits ''hero'')],
                                         multiple_accounts = None\<rparr>\<rparr>"

definition exApproved :: Order where
  "exApproved = exRejected\<lparr>order_status := approved\<rparr>"

definition exAccount :: Account where
  "exAccount = \<lparr>game = ''Game1'', package = ''v2'', account_fields = [(''ign'', codeUnits ''alt'')]\<rparr>"

definition exAccountIgn :: Account where
  "exAccountIgn = \<lparr>game = ''Game1'', package = ''v1'', account_fields = [(''IGN'', codeUnits ''solo'')]\<rparr>"

definition exRejectedMulti :: Order where
  "exRejectedMulti =
     \<lparr>order_id = ''o1'', order_status = rejected,
      customer_info = Some \<lparr>info_entries = [(''Payment Method'', codeUnits ''GCash'')],
                            multiple_accounts = Some [exAccount]\<rparr>\<rparr>"

definition exRejectedMultiIgn :: Order where
  "exRejectedMultiIgn =
     \<lparr>order_id = ''o1'', order_status = rejected,
      customer_info = Some \<lparr>info_entries = [(''Payment Method'', codeUnits ''GCash'')],
                            multiple_accounts = Some [exAccountIgn]\<rparr>\<rparr>"

fun exFetch :: "Order \<Rightarrow> string \<Rightarrow> Order option" where
  "exFetch order oid = (if oid = order_id order then Some order else None)"

definition exRejectedIgn :: Order where
  "exRejectedIgn = \<lparr>order_id = ''o1'', order_status = rejected,
                     customer_info = Some \<lparr>info_entries = [(''Payment Method'', codeUnits ''GCash''), (''IGN'', codeUnits ''hero'')],
                                            multiple_accounts = None\<rparr>\<rparr>"

definition exPlainCart :: "CartItem list" where
  "exPlainCart = [exGame ''g2:::CART:::c'' ''v1'' None]"

definition exFilled :: Checkout where
  "exFilled = exMounted\<lparr>customFieldValues := [''g1_v1_ign'' \<mapsto> codeUnits ''old'']\<rparr>"

definition exAccountLate :: Account where
  "exAccountLate = \<lparr>game = ''Game1'', package = ''v2'', account_fields = [(''ign'', codeUnits ''late'')]\<rparr>"

definition exRejectedTwice :: Order where
  "exRejectedTwice =
     \<lparr>order_id = ''o1'', order_status = rejected,
      customer_info = Some \<lparr>info_entries = [(''Payment Method'', codeUnits ''GCash'')],
                            multiple_accounts = Some [exAccount, exAccountLate]\<rparr>\<rparr>"

chapter \<open>Theorems\<close>

section \<open>Price resolution: theorems\<close>

lemma foldl_plus_sum_list:
  "foldl (\<lambda>p x. p + f x) (p0 :: real) xs = p0 + sum_list (map f xs)"
  by (induction xs arbitrary: p0) (simp_all add: add.assoc)



text \<open>
  C10. A cart line without \<open>effectiveUnitPriceOverride\<close> is priced, in \<open>getEffectiveUnitPrice\<close>
  and so in \<open>getTotalPrice\<close>, at \<open>basePrice\<close> plus the member-tier variation price (nothing
  when no variation is selected) plus the sum over the add-ons of quantity (one when absent)
  times price. The item's \<open>isOnDiscount\<close> and \<open>discountPercentage\<close> do not enter: changing
  them leaves the price as it is; the negotiated reseller discounts are not even an input
  of the cart's functions. A line with an override is priced at the override, which is
  the only way those two tiers reach the cart.
\<close>

theorem effective_unit_price_without_override:
  "(effectiveUnitPriceOverride c = None \<longrightarrow>
      getEffectiveUnitPrice m c =
        basePrice c
        + (case selectedVariation c of None \<Rightarrow> 0 | Some v \<Rightarrow> getVariationPriceForMember v m)
        + (\<Sum>a\<leftarrow>(case selectedAddOns c of None \<Rightarrow> [] | Some as \<Rightarrow> as).
             real_of_int (quantityOrOne a) * addon_price a)
      \<and> getEffectiveUnitPrice m (c\<lparr>isOnDiscount := d, discountPercentage := p\<rparr>)
          = getEffectiveUnitPrice m c)
   \<and> (effectiveUnitPriceOverride c = Some u \<longrightarrow> getEffectiveUnitPrice m c = u)
   \<and> getTotalPrice m cs = (\<Sum>x\<leftarrow>cs. getEffectiveUnitPrice m x * real_of_int (quantity x))"
  by (simp add: getEffectiveUnitPrice_def calculateItemPrice_def getTotalPrice_def
      foldl_plus_sum_list split: option.splits)

theorem effective_unit_price_without_override_witness:
  "effectiveUnitPriceOverride (exLine ''g1:::CART:::s'' 2 (Some [exAddOn ''x'' (Some 2)]) None) = None
   \<and> getEffectiveUnitPrice None (exLine ''g1:::CART:::s'' 2 (Some [exAddOn ''x'' (Some 2)]) None) = 110
   \<and> getEffectiveUnitPrice None
         ((exLine ''g1:::CART:::s'' 2 (Some [exAddOn ''x'' (Some 2)]) None)
            \<lparr>isOnDiscount := False, discountPercentage := None\<rparr>) = 110
   \<and> effectiveUnitPriceOverride (exLine ''g1:::CART:::s'' 2 None (Some 90)) = Some 90
   \<and> getEffectiveUnitPrice None (exLine ''g1:::CART:::s'' 2 None (Some 90)) = 90"
proof -
  let ?c = "exLine ''g1:::CART:::s'' 2 (Some [exAddOn ''x'' (Some 2)]) None"
  let ?o = "exLine ''g1:::CART:::s'' 2 None (Some 90)"
  have none: "effectiveUnitPriceOverride ?c = None" and some: "effectiveUnitPriceOverride ?o = Some 90"
    by (simp_all add: exLine_def)
  have sel: "selectedVariation ?c = Some exVariation" "basePrice ?c = 0"
    "selectedAddOns ?c = Some [exAddOn ''x'' (Some 2)]"
    by (simp_all add: exLine_def)
  have var: "getVariationPriceForMember exVariation None = 100"
    by (simp add: getVariationPriceForMember_def exVariation_def)
  have add: "real_of_int (quantityOrOne (exAddOn ''x'' (Some 2))) * addon_price (exAddOn ''x'' (Some 2)) = 10"
    by (simp add: quantityOrOne_def exAddOn_def)
  note t = effective_unit_price_without_override
    [where c = ?c and m = None and d = False and p = None and u = 0 and cs = "[]"]
  from t none have "getEffectiveUnitPrice None ?c =
        basePrice ?c
        + (case selectedVariation ?c of None \<Rightarrow> 0 | Some v \<Rightarrow> getVariationPriceForMember v None)
        + (\<Sum>a\<leftarrow>(case selectedAddOns ?c of None \<Rightarrow> [] | Some as \<Rightarrow> as).
             real_of_int (quantityOrOne a) * addon_price a)"
    by blast
  then have a: "getEffectiveUnitPrice None ?c = 110"
    by (simp add: sel var add)
  from t none
  have b: "getEffectiveUnitPrice None (?c\<lparr>isOnDiscount := False, discountPercentage := None\<rparr>)
         = getEffectiveUnitPrice None ?c"
    by blast
  from effective_unit_price_without_override
    [where c = ?o and m = None and d = False and p = None and u = 90 and cs = "[]"] some
  have c: "getEffectiveUnitPrice None ?o = 90"
    by blast
  from a b c none some show ?thesis
    by simp
qed

section \<open>Cart lines: theorems\<close>

lemma beforeFirst_append:
  assumes "CHR '':'' \<notin> set s"
  shows "beforeFirst cartSeparator (s @ cartSeparator @ t) = Some s"
  using assms by (induction s) (auto simp: cartSeparator_def)

lemma originalMenuItemId_new:
  "CHR '':'' \<notin> set s \<Longrightarrow> originalMenuItemId (s @ cartSeparator @ t) = s"
  by (simp add: originalMenuItemId_def beforeFirst_append)

lemma incrementGroup_ids: "map addon_id (incrementGroup i gs) = map addon_id gs"
  by (induction gs) simp_all

lemma incrementGroup_good: "goodGroups gs \<Longrightarrow> goodGroups (incrementGroup i gs)"
  unfolding goodGroups_def incrementGroup_ids
  by (induction gs) (auto simp: orOne_def split: option.splits)

lemma groupStep_good:
  assumes "goodGroups acc" and "quantityOk a"
  shows "goodGroups (groupStep acc a)"
proof (cases "find (\<lambda>g. addon_id g = addon_id a) acc")
  case None
  then have "addon_id a \<notin> addon_id ` set acc"
    by (auto simp: find_None_iff)
  with assms None show ?thesis
    by (auto simp: groupStep_def goodGroups_def quantityOk_def orOne_def split: option.splits)
next
  case (Some g)
  with assms show ?thesis
    by (simp add: groupStep_def incrementGroup_good)
qed

lemma foldl_groupStep_good:
  "goodGroups acc \<Longrightarrow> list_all quantityOk as \<Longrightarrow> goodGroups (foldl groupStep acc as)"
  by (induction as arbitrary: acc) (simp_all add: groupStep_good)

lemma groupStep_fresh:
  assumes "goodGroups (acc @ [x])"
  shows "groupStep acc x = acc @ [x]"
proof -
  from assms have "addon_id x \<notin> addon_id ` set acc"
    by (auto simp: goodGroups_def)
  then have "find (\<lambda>g. addon_id g = addon_id x) acc = None"
    unfolding find_None_iff by (metis imageI)
  moreover from assms obtain q where "addon_quantity x = Some q" "1 \<le> q"
    by (auto simp: goodGroups_def split: option.splits)
  ultimately show ?thesis
    by (simp add: groupStep_def orOne_def)
qed

lemma goodGroups_prefix: "goodGroups (xs @ ys) \<Longrightarrow> goodGroups xs"
  by (simp add: goodGroups_def)

lemma foldl_groupStep_fixed:
  "goodGroups (acc @ gs) \<Longrightarrow> foldl groupStep acc gs = acc @ gs"
proof (induction gs arbitrary: acc)
  case Nil
  then show ?case by simp
next
  case (Cons x xs)
  from Cons.prems have "goodGroups ((acc @ [x]) @ xs)" by simp
  then have "goodGroups (acc @ [x])" by (rule goodGroups_prefix)
  then have "groupStep acc x = acc @ [x]" by (rule groupStep_fresh)
  with Cons.IH[of "acc @ [x]"] Cons.prems show ?case by simp
qed

lemma goodGroups_sort_key: "goodGroups gs \<Longrightarrow> goodGroups (sort_key f gs)"
  by (simp add: goodGroups_def distinct_map list_all_iff)

lemma normalizeAddOns_good:
  "nonNegativeQuantities addOns \<Longrightarrow> goodGroups (normalizeAddOns collate addOns)"
proof (cases addOns)
  case None
  then show ?thesis by (simp add: normalizeAddOns_def goodGroups_def)
next
  case (Some as)
  assume "nonNegativeQuantities addOns"
  with Some have "list_all quantityOk as" by (simp add: nonNegativeQuantities_def)
  moreover have "goodGroups []" by (simp add: goodGroups_def)
  ultimately have "goodGroups (foldl groupStep [] as)" by (simp add: foldl_groupStep_good)
  then show ?thesis using Some
    by (simp add: normalizeAddOns_def goodGroups_sort_key) (simp add: goodGroups_def)
qed

lemma normalizeAddOns_sorted:
  "sorted (map (\<lambda>a. collate (addon_id a)) (normalizeAddOns collate addOns))"
  by (simp add: normalizeAddOns_def split: option.splits)

lemma normalizeAddOns_fixed:
  assumes "goodGroups gs" and "sorted (map (\<lambda>a. collate (addon_id a)) gs)"
  shows "normalizeAddOns collate (Some gs) = gs"
proof -
  from assms(1) have "foldl groupStep [] gs = gs"
    using foldl_groupStep_fixed[of "[]" gs] by simp
  with assms(2) show ?thesis
    by (simp add: normalizeAddOns_def sort_key_id_if_sorted)
qed

lemma normalizeAddOns_idem:
  "nonNegativeQuantities addOns \<Longrightarrow>
   normalizeAddOns collate (Some (normalizeAddOns collate addOns)) = normalizeAddOns collate addOns"
  by (rule normalizeAddOns_fixed) (simp_all add: normalizeAddOns_good normalizeAddOns_sorted)

lemma cartItemKey_new:
  assumes "CHR '':'' \<notin> set (item_id item)" and "nonNegativeQuantities addOns"
  shows "cartItemKey collate (newCartItem collate m stamp item q v addOns e)
         = createItemKey collate (item_id item) v addOns"
  using assms
  by (simp add: cartItemKey_def newCartItem_def createItemKey_def addOnsKey_def
      originalMenuItemId_new normalizeAddOns_idem)

lemma cartItemKey_quantity: "cartItemKey collate (c\<lparr>quantity := n\<rparr>) = cartItemKey collate c"
  by (simp add: cartItemKey_def)

lemma incrementExisting_split:
  assumes "\<forall>c\<in>set pre. \<not> P c" and "P x"
  shows "incrementExisting P q (pre @ x # post) = pre @ x\<lparr>quantity := quantity x + q\<rparr> # post"
  using assms by (induction pre) simp_all

lemma find_split:
  assumes "\<forall>c\<in>set pre. \<not> P c" and "P x"
  shows "find P (pre @ x # post) = Some x"
  using assms by (induction pre) simp_all

lemma addToCart_existing:
  assumes "\<forall>c\<in>set pre. cartItemKey collate c \<noteq> createItemKey collate (item_id item) v a"
    and "cartItemKey collate x = createItemKey collate (item_id item) v a"
  shows "addToCart collate m s item q v a e (pre @ x # post)
         = pre @ x\<lparr>quantity := quantity x + q\<rparr> # post"
  using assms by (simp add: addToCart_def find_split incrementExisting_split)

lemma addToCart_fresh:
  assumes "\<forall>c\<in>set prev. cartItemKey collate c \<noteq> createItemKey collate (item_id item) v a"
  shows "addToCart collate m s item q v a e prev = newCartItem collate m s item q v a e # prev"
proof -
  from assms have "find (\<lambda>c. cartItemKey collate c = createItemKey collate (item_id item) v a) prev = None"
    by (simp add: find_None_iff)
  then show ?thesis by (simp add: addToCart_def)
qed

text \<open>
  Two \<open>addToCart\<close> calls for which \<open>createItemKey\<close> builds the same key, whatever else
  the two calls pass and whichever comes first, leave the cart with one merged line: on a
  cart with no line of that key the first call inserts the line at the front and the
  second adds its quantity to it, so the line holds the sum of the two quantities with the
  first call's \<open>totalPrice\<close> and \<open>effectiveUnitPriceOverride\<close>, and the rest of the cart
  is as before; on a cart whose first line of that key is \<open>x\<close>, both quantities are
  added to \<open>x\<close>, every other field of \<open>x\<close> and every other line staying as they are.
  Menu item ids are UUIDs (the source relies on \<open>:::\<close> not occurring in them) and add-on
  quantities are not negative.
\<close>

lemma addToCart_merges_equal_keys:
  fixes collate :: "string \<Rightarrow> 'k::linorder"
  assumes sig: "createItemKey collate (item_id item2) v2 a2 = createItemKey collate (item_id item1) v1 a1"
  shows "((\<forall>c\<in>set prev. cartItemKey collate c \<noteq> createItemKey collate (item_id item1) v1 a1)
          \<and> CHR '':'' \<notin> set (item_id item1) \<and> nonNegativeQuantities a1 \<longrightarrow>
          addToCart collate m2 s2 item2 q2 v2 a2 e2 (addToCart collate m1 s1 item1 q1 v1 a1 e1 prev)
            = (newCartItem collate m1 s1 item1 q1 v1 a1 e1)\<lparr>quantity := q1 + q2\<rparr> # prev
          \<and> filter (\<lambda>c. cartItemKey collate c = createItemKey collate (item_id item1) v1 a1)
              (addToCart collate m2 s2 item2 q2 v2 a2 e2
                 (addToCart collate m1 s1 item1 q1 v1 a1 e1 prev))
            = [(newCartItem collate m1 s1 item1 q1 v1 a1 e1)\<lparr>quantity := q1 + q2\<rparr>])
       \<and> ((\<forall>c\<in>set pre. cartItemKey collate c \<noteq> createItemKey collate (item_id item1) v1 a1)
          \<and> cartItemKey collate x = createItemKey collate (item_id item1) v1 a1 \<longrightarrow>
          addToCart collate m2 s2 item2 q2 v2 a2 e2
              (addToCart collate m1 s1 item1 q1 v1 a1 e1 (pre @ x # post))
            = pre @ x\<lparr>quantity := quantity x + q1 + q2\<rparr> # post)"
proof (intro conjI impI)
  let ?k = "createItemKey collate (item_id item1) v1 a1"
  let ?line = "newCartItem collate m1 s1 item1 q1 v1 a1 e1"
  assume h: "(\<forall>c\<in>set prev. cartItemKey collate c \<noteq> ?k)
      \<and> CHR '':'' \<notin> set (item_id item1) \<and> nonNegativeQuantities a1"
  then have first: "addToCart collate m1 s1 item1 q1 v1 a1 e1 prev = ?line # prev"
    by (simp add: addToCart_fresh)
  from h have key: "cartItemKey collate ?line = ?k"
    by (simp add: cartItemKey_new)
  have "addToCart collate m2 s2 item2 q2 v2 a2 e2 ([] @ ?line # prev)
        = [] @ ?line\<lparr>quantity := quantity ?line + q2\<rparr> # prev"
    by (rule addToCart_existing) (simp_all add: sig key)
  moreover have "quantity ?line = q1" by (simp add: newCartItem_def)
  ultimately show both: "addToCart collate m2 s2 item2 q2 v2 a2 e2
       (addToCart collate m1 s1 item1 q1 v1 a1 e1 prev) = ?line\<lparr>quantity := q1 + q2\<rparr> # prev"
    by (simp add: first)
  from h have "filter (\<lambda>c. cartItemKey collate c = ?k) prev = []"
    by (simp add: filter_empty_conv)
  then show "filter (\<lambda>c. cartItemKey collate c = ?k)
       (addToCart collate m2 s2 item2 q2 v2 a2 e2
          (addToCart collate m1 s1 item1 q1 v1 a1 e1 prev))
      = [?line\<lparr>quantity := q1 + q2\<rparr>]"
    by (simp add: both cartItemKey_quantity key)
next
  let ?k = "createItemKey collate (item_id item1) v1 a1"
  assume h: "(\<forall>c\<in>set pre. cartItemKey collate c \<noteq> ?k) \<and> cartItemKey collate x = ?k"
  then have first: "addToCart collate m1 s1 item1 q1 v1 a1 e1 (pre @ x # post)
      = pre @ x\<lparr>quantity := quantity x + q1\<rparr> # post"
    by (simp add: addToCart_existing)
  have "addToCart collate m2 s2 item2 q2 v2 a2 e2 (pre @ x\<lparr>quantity := quantity x + q1\<rparr> # post)
      = pre @ x\<lparr>quantity := quantity x + q1\<rparr>\<lparr>quantity := quantity (x\<lparr>quantity := quantity x + q1\<rparr>) + q2\<rparr> # post"
    by (rule addToCart_existing) (use h in \<open>simp_all add: sig cartItemKey_quantity\<close>)
  then show "addToCart collate m2 s2 item2 q2 v2 a2 e2
       (addToCart collate m1 s1 item1 q1 v1 a1 e1 (pre @ x # post))
      = pre @ x\<lparr>quantity := quantity x + q1 + q2\<rparr> # post"
    by (simp add: first)
qed

lemma addToCart_merges_equal_keys_example:
  "createItemKey (\<lambda>s. s) (item_id exItem) (Some exVariation) (Some [exAddOn ''x'' (Some 2)])
     = createItemKey (\<lambda>s. s) (item_id exItem) (Some exVariation)
         (Some [exAddOn ''x'' None, exAddOn ''x'' None])
   \<and> map (\<lambda>c. (item_id c, quantity c, totalPrice c, effectiveUnitPriceOverride c))
         (addToCart (\<lambda>s. s) None ''s2'' exItem 3 (Some exVariation)
            (Some [exAddOn ''x'' (Some 2)]) None
            (addToCart (\<lambda>s. s) None ''s1'' exItem 1 (Some exVariation)
               (Some [exAddOn ''x'' None, exAddOn ''x'' None]) (Some 90)
               [exLine ''g2:::CART:::s0'' 7 None None]))
       = [(''g1:::CART:::s1'', 4, 90, Some 90), (''g2:::CART:::s0'', 7, 100, None)]
   \<and> map (\<lambda>c. (item_id c, quantity c, totalPrice c, effectiveUnitPriceOverride c))
         (addToCart (\<lambda>s. s) None ''s2'' exItem 3 (Some exVariation)
            (Some [exAddOn ''x'' (Some 2)]) None
            (addToCart (\<lambda>s. s) None ''s1'' exItem 1 (Some exVariation)
               (Some [exAddOn ''x'' None, exAddOn ''x'' None]) (Some 90)
               ([exLine ''g2:::CART:::s0'' 7 None None]
                @ exLine ''g1-1700000000'' 7 (Some [exAddOn ''x'' (Some 2)]) None # [])))
       = [(''g2:::CART:::s0'', 7, 100, None), (''g1-1700000000'', 11, 100, None)]"
proof -
  let ?col = "\<lambda>s::string. s"
  let ?a1 = "Some [exAddOn ''x'' None, exAddOn ''x'' None]"
  let ?a2 = "Some [exAddOn ''x'' (Some 2)]"
  let ?other = "exLine ''g2:::CART:::s0'' 7 None None"
  let ?old = "exLine ''g1-1700000000'' 7 ?a2 None"
  let ?k = "createItemKey ?col (item_id exItem) (Some exVariation) ?a1"
  have k1: "?k = ''g1|v1|x:2''"
    by code_simp
  have k2: "createItemKey ?col (item_id exItem) (Some exVariation) ?a2 = ''g1|v1|x:2''"
    by code_simp
  have k3: "cartItemKey ?col ?old = ''g1|v1|x:2''"
    by code_simp
  have k4: "cartItemKey ?col ?other = ''g2|v1|none''"
    by code_simp
  have sig: "createItemKey ?col (item_id exItem) (Some exVariation) ?a2 = ?k"
    by (simp only: k1 k2)
  note merged = addToCart_merges_equal_keys[OF sig, where ?m1.0 = None and ?m2.0 = None
      and ?s1.0 = "''s1''" and ?s2.0 = "''s2''" and ?q1.0 = 1 and ?q2.0 = 3
      and ?e1.0 = "Some 90" and ?e2.0 = None and prev = "[?other]" and pre = "[?other]"
      and x = ?old and post = "[]"]
  have fresh: "\<forall>c\<in>set [?other]. cartItemKey ?col c \<noteq> ?k"
    by (simp add: k1 k4)
  have uuid: "CHR '':'' \<notin> set (item_id exItem)"
    by (simp add: exItem_def)
  have nonneg: "nonNegativeQuantities ?a1"
    by (simp add: nonNegativeQuantities_def quantityOk_def exAddOn_def)
  have old: "cartItemKey ?col ?old = ?k"
    by (simp only: k1 k3)
  from merged fresh uuid nonneg
  have r1: "addToCart ?col None ''s2'' exItem 3 (Some exVariation) ?a2 None
              (addToCart ?col None ''s1'' exItem 1 (Some exVariation) ?a1 (Some 90) [?other])
            = (newCartItem ?col None ''s1'' exItem 1 (Some exVariation) ?a1 (Some 90))
                \<lparr>quantity := 1 + 3\<rparr> # [?other]"
    by blast
  from merged fresh old
  have r2: "addToCart ?col None ''s2'' exItem 3 (Some exVariation) ?a2 None
              (addToCart ?col None ''s1'' exItem 1 (Some exVariation) ?a1 (Some 90)
                 ([?other] @ ?old # []))
            = [?other] @ ?old\<lparr>quantity := quantity ?old + 1 + 3\<rparr> # []"
    by blast
  have "map (\<lambda>c. (item_id c, quantity c, totalPrice c, effectiveUnitPriceOverride c))
          ((newCartItem ?col None ''s1'' exItem 1 (Some exVariation) ?a1 (Some 90))
              \<lparr>quantity := 1 + 3\<rparr> # [?other])
        = [(''g1:::CART:::s1'', 4, 90, Some 90), (''g2:::CART:::s0'', 7, 100, None)]"
    by (simp add: newCartItem_def exLine_def exItem_def cartSeparator_def)
  moreover
  have "map (\<lambda>c. (item_id c, quantity c, totalPrice c, effectiveUnitPriceOverride c))
          ([?other] @ ?old\<lparr>quantity := quantity ?old + 1 + 3\<rparr> # [])
        = [(''g2:::CART:::s0'', 7, 100, None), (''g1-1700000000'', 11, 100, None)]"
    by (simp add: exLine_def)
  ultimately show ?thesis
    using sig by (simp only: r1 r2 simp_thms)
qed

lemma foldl_groupStep_distinct:
  "distinct (map addon_id (acc @ as)) \<Longrightarrow>
   foldl groupStep acc as
   = acc @ map (\<lambda>a. a\<lparr>addon_quantity := Some (orOne (addon_quantity a))\<rparr>) as"
proof (induction as arbitrary: acc)
  case Nil
  then show ?case by simp
next
  case (Cons x xs)
  from Cons.prems have "addon_id x \<notin> addon_id ` set acc" by auto
  then have "find (\<lambda>g. addon_id g = addon_id x) acc = None"
    unfolding find_None_iff by (metis imageI)
  then have step: "groupStep acc x = acc @ [x\<lparr>addon_quantity := Some (orOne (addon_quantity x))\<rparr>]"
    by (simp add: groupStep_def)
  from Cons.prems
  have "distinct (map addon_id ((acc @ [x\<lparr>addon_quantity := Some (orOne (addon_quantity x))\<rparr>]) @ xs))"
    by simp
  then show ?case
    using Cons.IH[of "acc @ [x\<lparr>addon_quantity := Some (orOne (addon_quantity x))\<rparr>]"]
    by (simp add: step)
qed

lemma sort_labels_of_pairs:
  assumes "mset ps = mset qs"
  shows "sort (map (\<lambda>p. fst p @ '':'' @ showInt (if snd p = 0 then 1 else snd p)) ps)
         = sort (map (\<lambda>p. fst p @ '':'' @ showInt (if snd p = 0 then 1 else snd p)) qs)"
proof -
  from assms have "mset (sort (map (\<lambda>p. fst p @ '':'' @ showInt (if snd p = 0 then 1 else snd p)) qs))
                   = mset (map (\<lambda>p. fst p @ '':'' @ showInt (if snd p = 0 then 1 else snd p)) ps)"
    by (simp only: mset_sort mset_map)
  moreover have "sorted (sort (map (\<lambda>p. fst p @ '':'' @ showInt (if snd p = 0 then 1 else snd p)) qs))"
    by (rule sorted_sort)
  ultimately show ?thesis
    by (rule properties_for_sort)
qed

lemma addOnsKey_distinct:
  assumes "distinct (map addon_id (case addOns of None \<Rightarrow> [] | Some as \<Rightarrow> as))"
  shows "addOnsKey collate addOns
         = (let joined = joinComma (sort (map (\<lambda>p. fst p @ '':'' @ showInt (if snd p = 0 then 1 else snd p))
                                            (signaturePairs addOns)))
            in if joined = [] then ''none'' else joined)"
proof (cases addOns)
  case None
  then show ?thesis by (simp add: addOnsKey_def normalizeAddOns_def signaturePairs_def)
next
  case (Some as)
  let ?norm = "map (\<lambda>a. a\<lparr>addon_quantity := Some (orOne (addon_quantity a))\<rparr>) as"
  from assms Some have "foldl groupStep [] as = ?norm"
    using foldl_groupStep_distinct[of "[]" as] by simp
  then have n: "normalizeAddOns collate addOns = sort_key (\<lambda>a. collate (addon_id a)) ?norm"
    using Some by (simp add: normalizeAddOns_def)
  have "mset (sort (map addOnLabel ?norm))
        = mset (map addOnLabel (sort_key (\<lambda>a. collate (addon_id a)) ?norm))"
    by (simp only: mset_sort mset_map)
  moreover have "sorted (sort (map addOnLabel ?norm))"
    by (rule sorted_sort)
  ultimately have "sort (map addOnLabel (sort_key (\<lambda>a. collate (addon_id a)) ?norm))
        = sort (map addOnLabel ?norm)"
    by (rule properties_for_sort)
  also have "map addOnLabel ?norm
             = map (\<lambda>p. fst p @ '':'' @ showInt (if snd p = 0 then 1 else snd p)) (signaturePairs addOns)"
    using Some by (simp add: addOnLabel_def signaturePairs_def orOne_def split: option.splits)
  finally show ?thesis
    by (simp add: addOnsKey_def n)
qed

lemma createItemKey_same_triple:
  assumes "map_option variation_id v2 = map_option variation_id v1"
    and "distinct (map fst (signaturePairs a1))"
    and "mset (signaturePairs a2) = mset (signaturePairs a1)"
  shows "createItemKey collate i v2 a2 = createItemKey collate i v1 a1"
proof -
  have ids: "map fst (signaturePairs a) = map addon_id (case a of None \<Rightarrow> [] | Some as \<Rightarrow> as)" for a
    by (simp add: signaturePairs_def split: option.splits)
  from assms(3) have "mset (map fst (signaturePairs a2)) = mset (map fst (signaturePairs a1))"
    by (simp only: mset_map)
  from mset_eq_imp_distinct_iff[OF this] assms(2) have "distinct (map fst (signaturePairs a2))"
    by blast
  with assms(2) have d: "distinct (map addon_id (case a1 of None \<Rightarrow> [] | Some as \<Rightarrow> as))"
    "distinct (map addon_id (case a2 of None \<Rightarrow> [] | Some as \<Rightarrow> as))"
    unfolding ids by blast+
  have "addOnsKey collate a2 = addOnsKey collate a1"
    by (simp only: addOnsKey_distinct[OF d(1)] addOnsKey_distinct[OF d(2)]
        sort_labels_of_pairs[OF assms(3)])
  moreover from assms(1)
  have "(case v2 of None \<Rightarrow> ''none'' | Some v \<Rightarrow> if variation_id v = [] then ''none'' else variation_id v)
        = (case v1 of None \<Rightarrow> ''none'' | Some v \<Rightarrow> if variation_id v = [] then ''none'' else variation_id v)"
    by (cases v1; cases v2) simp_all
  ultimately show ?thesis
    by (simp add: createItemKey_def)
qed

text \<open>
  Pinned to the signature itself: two calls with the same menu item id, the same variation
  id and the same multiset of add-ons (id and quantity), the add-ons having no repeated
  id, build the same key, and so leave one merged line with the sum of the quantities.
\<close>

lemma addToCart_merges_same_triple:
  fixes collate :: "string \<Rightarrow> 'k::linorder"
  assumes item: "item_id item2 = item_id item1"
    and var: "map_option variation_id v2 = map_option variation_id v1"
    and norep: "distinct (map fst (signaturePairs a1))"
    and same: "mset (signaturePairs a2) = mset (signaturePairs a1)"
    and fresh: "\<forall>c\<in>set prev. cartItemKey collate c \<noteq> createItemKey collate (item_id item1) v1 a1"
    and uuid: "CHR '':'' \<notin> set (item_id item1)" and nonneg: "nonNegativeQuantities a1"
  shows "addToCart collate m2 s2 item2 q2 v2 a2 e2 (addToCart collate m1 s1 item1 q1 v1 a1 e1 prev)
         = (newCartItem collate m1 s1 item1 q1 v1 a1 e1)\<lparr>quantity := q1 + q2\<rparr> # prev"
proof -
  have "createItemKey collate (item_id item2) v2 a2 = createItemKey collate (item_id item1) v1 a1"
    unfolding item by (rule createItemKey_same_triple[OF var norep same])
  from addToCart_merges_equal_keys[OF this, THEN conjunct1, THEN mp, THEN conjunct1]
    fresh uuid nonneg
  show ?thesis by blast
qed

lemma addToCart_merges_same_triple_example:
  "map (\<lambda>c. (item_id c, quantity c))
     (addToCart (\<lambda>s. s) None ''s2'' exItem 3 (Some exVariation)
        (Some [exAddOn ''y'' None, exAddOn ''x'' (Some 2)]) None
        (addToCart (\<lambda>s. s) None ''s1'' exItem 1 (Some exVariation)
           (Some [exAddOn ''x'' (Some 2), exAddOn ''y'' (Some 1)]) None []))
   = [(''g1:::CART:::s1'', 4)]"
proof -
  let ?a1 = "Some [exAddOn ''x'' (Some 2), exAddOn ''y'' (Some 1)]"
  let ?a2 = "Some [exAddOn ''y'' None, exAddOn ''x'' (Some 2)]"
  have "addToCart (\<lambda>s. s) None ''s2'' exItem 3 (Some exVariation) ?a2 None
          (addToCart (\<lambda>s. s) None ''s1'' exItem 1 (Some exVariation) ?a1 None [])
        = (newCartItem (\<lambda>s. s) None ''s1'' exItem 1 (Some exVariation) ?a1 None)\<lparr>quantity := 1 + 3\<rparr> # []"
    by (rule addToCart_merges_same_triple)
       (simp_all add: signaturePairs_def exAddOn_def exItem_def nonNegativeQuantities_def
          quantityOk_def)
  then show ?thesis
    by (simp add: newCartItem_def exItem_def cartSeparator_def)
qed

text \<open>
  C1. Two \<open>addToCart\<close> calls with the same menu item, the same variation and the same
  multiset of add-ons do not always leave one line: \<open>normalizeAddOns\<close> counts a repeated
  add-on id instead of adding its quantity (the defect of C3), so its result, and with it
  the key of \<open>createItemKey\<close>, depends on the order of the add-ons. On the empty cart, a
  call with the add-ons \<open>x\<close> (quantity 2), \<open>x\<close> (quantity 3) followed by a call with
  the same two add-ons in the other order builds the keys \<open>g1|v1|x:3\<close> and
  \<open>g1|v1|x:4\<close> and leaves two lines, of quantities 1 and 3, instead of one line of
  quantity 4; a second call with the one add-on \<open>x\<close> (quantity 5), the sum, builds
  \<open>g1|v1|x:5\<close> and leaves two lines as well. (Calls whose keys agree do merge,
  \<open>addToCart_merges_equal_keys\<close>, and so do calls of one signature whose add-ons have no
  repeated id, \<open>addToCart_merges_same_triple\<close>.)
\<close>


theorem addToCart_splits_equal_add_on_multisets:
  "mset [exAddOn ''x'' (Some 3), exAddOn ''x'' (Some 2)]
     = mset [exAddOn ''x'' (Some 2), exAddOn ''x'' (Some 3)]
   \<and> createItemKey collate (item_id exItem) (Some exVariation)
       (Some [exAddOn ''x'' (Some 2), exAddOn ''x'' (Some 3)]) = ''g1|v1|x:3''
   \<and> createItemKey collate (item_id exItem) (Some exVariation)
       (Some [exAddOn ''x'' (Some 3), exAddOn ''x'' (Some 2)]) = ''g1|v1|x:4''
   \<and> createItemKey collate (item_id exItem) (Some exVariation)
       (Some [exAddOn ''x'' (Some 5)]) = ''g1|v1|x:5''
   \<and> map (\<lambda>c. (item_id c, quantity c, map_option (map addon_quantity) (selectedAddOns c)))
     (addToCart collate None ''s2'' exItem 3 (Some exVariation)
        (Some [exAddOn ''x'' (Some 3), exAddOn ''x'' (Some 2)]) None
        (addToCart collate None ''s1'' exItem 1 (Some exVariation)
           (Some [exAddOn ''x'' (Some 2), exAddOn ''x'' (Some 3)]) None []))
   = [(''g1:::CART:::s2'', 3, Some [Some 4]), (''g1:::CART:::s1'', 1, Some [Some 3])]
   \<and> map (\<lambda>c. (item_id c, quantity c, map_option (map addon_quantity) (selectedAddOns c)))
       (addToCart collate None ''s2'' exItem 3 (Some exVariation)
          (Some [exAddOn ''x'' (Some 5)]) None
          (addToCart collate None ''s1'' exItem 1 (Some exVariation)
             (Some [exAddOn ''x'' (Some 2), exAddOn ''x'' (Some 3)]) None []))
     = [(''g1:::CART:::s2'', 3, Some [Some 5]), (''g1:::CART:::s1'', 1, Some [Some 3])]"
proof -
  have n23: "normalizeAddOns collate (Some [exAddOn ''x'' (Some 2), exAddOn ''x'' (Some 3)])
             = [exAddOn ''x'' (Some 3)]"
    and n32: "normalizeAddOns collate (Some [exAddOn ''x'' (Some 3), exAddOn ''x'' (Some 2)])
             = [exAddOn ''x'' (Some 4)]"
    and n5: "normalizeAddOns collate (Some [exAddOn ''x'' (Some 5)]) = [exAddOn ''x'' (Some 5)]"
    by (simp_all add: normalizeAddOns_def groupStep_def exAddOn_def orOne_def)
  have s: "showInt 3 = ''3''" "showInt 4 = ''4''" "showInt 5 = ''5''"
    by code_simp+
  have k23: "createItemKey collate (item_id exItem) (Some exVariation)
               (Some [exAddOn ''x'' (Some 2), exAddOn ''x'' (Some 3)]) = ''g1|v1|x:3''"
    and k32: "createItemKey collate (item_id exItem) (Some exVariation)
               (Some [exAddOn ''x'' (Some 3), exAddOn ''x'' (Some 2)]) = ''g1|v1|x:4''"
    and k5: "createItemKey collate (item_id exItem) (Some exVariation)
               (Some [exAddOn ''x'' (Some 5)]) = ''g1|v1|x:5''"
    unfolding createItemKey_def addOnsKey_def n23 n32 n5
    by (simp_all add: exItem_def exVariation_def addOnLabel_def exAddOn_def s)
  let ?first = "newCartItem collate None ''s1'' exItem 1 (Some exVariation)
                  (Some [exAddOn ''x'' (Some 2), exAddOn ''x'' (Some 3)]) None"
  have first: "addToCart collate None ''s1'' exItem 1 (Some exVariation)
                 (Some [exAddOn ''x'' (Some 2), exAddOn ''x'' (Some 3)]) None [] = [?first]"
    by (simp add: addToCart_def)
  have "cartItemKey collate ?first
        = createItemKey collate (item_id exItem) (Some exVariation)
            (Some [exAddOn ''x'' (Some 2), exAddOn ''x'' (Some 3)])"
    by (rule cartItemKey_new)
       (simp_all add: exItem_def nonNegativeQuantities_def quantityOk_def exAddOn_def)
  then have kf: "cartItemKey collate ?first = ''g1|v1|x:3''"
    by (simp only: k23)
  have q: "addon_quantity (exAddOn i n) = n" for i n
    by (simp add: exAddOn_def)
  have same: "mset [exAddOn ''x'' (Some 3), exAddOn ''x'' (Some 2)]
              = mset [exAddOn ''x'' (Some 2), exAddOn ''x'' (Some 3)]"
    by (simp add: add_mset_commute)
  have lines: "map (\<lambda>c. (item_id c, quantity c, map_option (map addon_quantity) (selectedAddOns c)))
     (addToCart collate None ''s2'' exItem 3 (Some exVariation)
        (Some [exAddOn ''x'' (Some 3), exAddOn ''x'' (Some 2)]) None
        (addToCart collate None ''s1'' exItem 1 (Some exVariation)
           (Some [exAddOn ''x'' (Some 2), exAddOn ''x'' (Some 3)]) None []))
   = [(''g1:::CART:::s2'', 3, Some [Some 4]), (''g1:::CART:::s1'', 1, Some [Some 3])]"
    "map (\<lambda>c. (item_id c, quantity c, map_option (map addon_quantity) (selectedAddOns c)))
       (addToCart collate None ''s2'' exItem 3 (Some exVariation)
          (Some [exAddOn ''x'' (Some 5)]) None
          (addToCart collate None ''s1'' exItem 1 (Some exVariation)
             (Some [exAddOn ''x'' (Some 2), exAddOn ''x'' (Some 3)]) None []))
     = [(''g1:::CART:::s2'', 3, Some [Some 5]), (''g1:::CART:::s1'', 1, Some [Some 3])]"
    unfolding first
    by (simp_all add: addToCart_def k32 k5 kf)
       (simp_all add: newCartItem_def n23 n32 n5 q exItem_def cartSeparator_def)
  from same k23 k32 k5 lines show ?thesis
    by (intro conjI)
qed

text \<open>
  The card's \<open>handleItemSelect\<close> hands \<open>addToCart\<close> a unit price it resolved itself, and
  the line it creates is priced at exactly that: this is how the generic discount (and a
  negotiated reseller price) reaches the cart.
\<close>

lemma handleItemSelect_override:
  "getEffectiveUnitPrice m
     (newCartItem collate m' stamp item 1 v None
        (Some (handleItemSelectPrice item m' memberDiscounts v)))
   = handleItemSelectPrice item m' memberDiscounts v"
  "isOnDiscount item \<Longrightarrow> discountPercentage item = Some pct \<Longrightarrow>
   handleItemSelectPrice item None memberDiscounts (Some var)
   = basePrice item + (price var - price var * pct)"
  by (simp_all add: getEffectiveUnitPrice_def newCartItem_def handleItemSelectPrice_def
      getDiscountedPriceSync_def isReseller_def)

section \<open>Add-on normalization: evaluation\<close>

text \<open>
  C3. \<open>normalizeAddOns\<close> counts a repeated id instead of adding its quantity: the first
  entry of an id contributes its quantity (or one), every further entry contributes one.
  Two entries of one add-on with quantities 2 and 3 normalize to quantity 3, not 5, and
  the same two entries in the other order to quantity 4: the result is neither the sum of
  the quantities nor independent of the order. (On a list without negative quantities the
  function is idempotent and its result sorted by id: \<open>normalizeAddOns_idem\<close>,
  \<open>normalizeAddOns_sorted\<close>.)
\<close>

theorem normalizeAddOns_counts_duplicates:
  "map addon_quantity
     (normalizeAddOns collate (Some [exAddOn ''x'' (Some 2), exAddOn ''x'' (Some 3)])) = [Some 3]
   \<and> map addon_quantity
       (normalizeAddOns collate (Some [exAddOn ''x'' (Some 3), exAddOn ''x'' (Some 2)])) = [Some 4]"
  by (simp add: normalizeAddOns_def groupStep_def exAddOn_def orOne_def)

section \<open>Cart start-up: theorems\<close>

text \<open>
  C9. The cart initializer never throws: whatever \<open>localStorage.getItem\<close> and
  \<open>JSON.parse\<close> do, it returns a value; and when the \<open>amber_cartItems\<close> entry cannot be
  read, is missing, or holds text that fails to parse, that value is the empty list.
\<close>

theorem cart_initializer_never_throws:
  "initialCartItems getItem parse \<noteq> Throws
   \<and> (getItem = Throws \<or> getItem = Returns None
        \<or> (\<exists>text. getItem = Returns (Some text) \<and> parse text = Throws)
      \<longrightarrow> initialCartItems getItem parse = Returns [])"
  by (auto simp: initialCartItems_def loadSavedCartItems_def split: outcome.splits option.splits)

theorem cart_initializer_never_throws_witness:
  "exParse ''{bad'' = Throws
   \<and> initialCartItems (Returns (Some ''{bad'')) exParse = Returns []
   \<and> initialCartItems (Returns None) exParse = Returns []
   \<and> initialCartItems Throws exParse = Returns []"
proof -
  have p: "exParse ''{bad'' = Throws" by (simp add: exParse_def)
  note t = cart_initializer_never_throws[THEN conjunct2, rule_format]
  have "initialCartItems (Returns (Some ''{bad'')) exParse = Returns []"
    by (rule t) (simp add: p)
  moreover have "initialCartItems (Returns None) exParse = Returns []"
    by (rule t) simp
  moreover have "initialCartItems Throws exParse = Returns []"
    by (rule t) simp
  ultimately show ?thesis using p by simp
qed

section \<open>Member session: theorems\<close>

text \<open>
  C8. \<open>login\<close> against the members table: no member with the email gives
  \<open>InvalidCredentials\<close>; the member with the email, when its status is not \<open>active\<close>,
  gives \<open>InactiveAccount\<close> (whatever the password); an active member whose stored hash
  is not the hash of the password gives \<open>InvalidCredentials\<close>; an active member with the
  matching hash succeeds, and the session then holds the member, \<open>member_id\<close> is stored
  and the member is returned. A failed login leaves the session as it was. Any query
  answer with an error or without a row gives \<open>InvalidCredentials\<close>.
\<close>

theorem login_outcomes:
  "(filter (\<lambda>m. email m = e) members = [] \<longrightarrow>
      login hash (selectByEmail members e) password s = (Inl InvalidCredentials, s))
   \<and> (filter (\<lambda>m. email m = e) members = [m] \<and> status m \<noteq> ''active'' \<longrightarrow>
      login hash (selectByEmail members e) password s = (Inl InactiveAccount, s))
   \<and> (filter (\<lambda>m. email m = e) members = [m] \<and> status m = ''active''
        \<and> hash password \<noteq> password_hash m \<longrightarrow>
      login hash (selectByEmail members e) password s = (Inl InvalidCredentials, s))
   \<and> (filter (\<lambda>m. email m = e) members = [m] \<and> status m = ''active''
        \<and> hash password = password_hash m \<longrightarrow>
      login hash (selectByEmail members e) password s
        = (Inr m, s\<lparr>stored_member_id := Some (member_id m), currentMember := Some m,
                    dispatched := dispatched s @ [''memberAuthUpdate'']\<rparr>))
   \<and> (err \<noteq> None \<or> found = None \<longrightarrow>
      login hash (Resolved found err) password s = (Inl InvalidCredentials, s))
   \<and> errorMessage InvalidCredentials = ''Invalid email or password''
   \<and> errorMessage InactiveAccount = ''Account is inactive''"
  by (auto simp: login_def selectByEmail_def single_def verifyPassword_def establishSession_def
      split: option.splits)

theorem login_outcomes_witness:
  "login exHash (selectByEmail exMembers ''nobody@x'') ''pw'' exSession
     = (Inl InvalidCredentials, exSession)
   \<and> login exHash (selectByEmail exMembers ''i@x'') ''pw'' exSession
     = (Inl InactiveAccount, exSession)
   \<and> login exHash (selectByEmail exMembers ''a@x'') ''bad'' exSession
     = (Inl InvalidCredentials, exSession)
   \<and> login exHash (selectByEmail exMembers ''a@x'') ''pw'' exSession
     = (Inr exActive, \<lparr>currentMember = Some exActive, stored_member_id = Some ''m2'',
                       dispatched = [''memberAuthUpdate'']\<rparr>)
   \<and> login exHash (Resolved None (Some ''timeout'')) ''pw'' exSession
     = (Inl InvalidCredentials, exSession)"
proof -
  have none: "filter (\<lambda>m. email m = ''nobody@x'') exMembers = []"
    and inactive: "filter (\<lambda>m. email m = ''i@x'') exMembers = [exInactive]"
    and active: "filter (\<lambda>m. email m = ''a@x'') exMembers = [exActive]"
    by (simp_all add: exMembers_def exActive_def exInactive_def)
  have st: "status exInactive \<noteq> ''active''" "status exActive = ''active''"
    and pw: "exHash ''bad'' \<noteq> password_hash exActive" "exHash ''pw'' = password_hash exActive"
    by (simp_all add: exInactive_def exActive_def exHash_def)
  note t = login_outcomes[where hash = exHash and members = exMembers and s = exSession]
  from t[where e = "''nobody@x''" and password = "''pw''"] none
  have 1: "login exHash (selectByEmail exMembers ''nobody@x'') ''pw'' exSession
           = (Inl InvalidCredentials, exSession)"
    by blast
  from t[where e = "''i@x''" and m = exInactive and password = "''pw''"] inactive st
  have 2: "login exHash (selectByEmail exMembers ''i@x'') ''pw'' exSession
           = (Inl InactiveAccount, exSession)"
    by blast
  from t[where e = "''a@x''" and m = exActive and password = "''bad''"] active st pw
  have 3: "login exHash (selectByEmail exMembers ''a@x'') ''bad'' exSession
           = (Inl InvalidCredentials, exSession)"
    by blast
  from t[where e = "''a@x''" and m = exActive and password = "''pw''"] active st pw
  have 4: "login exHash (selectByEmail exMembers ''a@x'') ''pw'' exSession
           = (Inr exActive, exSession\<lparr>stored_member_id := Some (member_id exActive),
                currentMember := Some exActive,
                dispatched := dispatched exSession @ [''memberAuthUpdate'']\<rparr>)"
    by blast
  from t[where err = "Some ''timeout''" and found = None and password = "''pw''"]
  have 5: "login exHash (Resolved None (Some ''timeout'')) ''pw'' exSession
           = (Inl InvalidCredentials, exSession)"
    by blast
  have "exSession\<lparr>stored_member_id := Some (member_id exActive), currentMember := Some exActive,
          dispatched := dispatched exSession @ [''memberAuthUpdate'']\<rparr>
        = \<lparr>currentMember = Some exActive, stored_member_id = Some ''m2'',
           dispatched = [''memberAuthUpdate'']\<rparr>"
    by (simp add: exSession_def exActive_def)
  with 1 2 3 4 5 show ?thesis by simp
qed

text \<open>
  C7. \<open>logout\<close> clears the stored id and the current member and dispatches nothing: the
  events dispatched on \<open>window\<close> are the same before and after. (A successful \<open>login\<close>
  and a successful \<open>register\<close> do dispatch \<open>memberAuthUpdate\<close>:
  \<open>successful_login_and_register_dispatch\<close>.)
\<close>

theorem logout_dispatches_nothing:
  "dispatched (logout s) = dispatched s
   \<and> currentMember (logout s) = None \<and> stored_member_id (logout s) = None"
  by (simp add: logout_def)

lemma successful_login_and_register_dispatch:
  "login hash found password s = (Inr m, s') \<Longrightarrow> dispatched s' = dispatched s @ [''memberAuthUpdate'']"
  "register hash existingEmail existingUsername insertMember d s = (Inr m, s') \<Longrightarrow>
     dispatched s' = dispatched s @ [''memberAuthUpdate'']"
  by (auto simp: login_def register_def establishSession_def
      split: response.splits option.splits if_splits)

section \<open>Checkout: theorems\<close>

lemma trim_Nil_iff: "trim v = [] \<longleftrightarrow> list_all isWhitespace v"
proof
  assume "trim v = []"
  then have "dropWhile isWhitespace (rev (dropWhile isWhitespace v)) = []"
    by (simp add: trim_def)
  then have all: "\<forall>x\<in>set (dropWhile isWhitespace v). isWhitespace x"
    by (simp add: dropWhile_eq_Nil_conv)
  have "dropWhile isWhitespace v = []"
  proof (rule ccontr)
    assume ne: "dropWhile isWhitespace v \<noteq> []"
    then have "\<not> isWhitespace (hd (dropWhile isWhitespace v))"
      by (rule hd_dropWhile)
    moreover from ne have "hd (dropWhile isWhitespace v) \<in> set (dropWhile isWhitespace v)"
      by simp
    ultimately show False using all by blast
  qed
  then show "list_all isWhitespace v"
    by (simp add: dropWhile_eq_Nil_conv list_all_iff)
next
  assume "list_all isWhitespace v"
  then have "dropWhile isWhitespace v = []"
    by (induction v) simp_all
  then show "trim v = []"
    by (simp add: trim_def del: dropWhile_eq_Nil_conv)
qed

lemma filled_iff_not_blank: "filled vals k \<longleftrightarrow> \<not> blankValue vals k"
  by (simp add: filled_def blankValue_def trim_Nil_iff split: option.splits)

lemma mapSet_keys: "fst ` set (mapSet k v es) = insert k (fst ` set es)"
proof (induction es)
  case Nil
  show ?case by simp
next
  case (Cons e es)
  obtain k' v' where "e = (k', v')" by (cases e)
  with Cons show ?case by (cases "k' = k") auto
qed

lemma mapSet_fresh: "map_of es k = None \<Longrightarrow> mapSet k v es = es @ [(k, v)]"
  by (induction es) (auto split: if_splits)

lemma pairsOf_Nil: "pairsOf [] = {}"
  by (simp add: pairsOf_def)

lemma pairsOf_Cons: "pairsOf ((g, vm) # rest) = (Pair g ` fst ` set vm) \<union> pairsOf rest"
  by (auto simp: pairsOf_def)

lemma pairsOf_mapSet:
  "pairsOf (mapSet g (mapSet v xs (case map_of grouped g of None \<Rightarrow> [] | Some vm \<Rightarrow> vm)) grouped)
   = insert (g, v) (pairsOf grouped)"
proof (induction grouped)
  case Nil
  show ?case by (simp add: pairsOf_Cons pairsOf_Nil)
next
  case (Cons e rest)
  obtain g' vm' where e: "e = (g', vm')" by (cases e)
  show ?case
  proof (cases "g' = g")
    case True
    with e show ?thesis by (auto simp: pairsOf_Cons mapSet_keys)
  next
    case False
    with e Cons.IH show ?thesis by (auto simp: pairsOf_Cons)
  qed
qed

lemma pairsOf_groupStep:
  "pairsOf (groupStepCheckout grouped item) = insert (gameOf item, variationIdOf item) (pairsOf grouped)"
  by (simp add: groupStepCheckout_def Let_def pairsOf_mapSet)

lemma pairsOf_foldl:
  "pairsOf (foldl groupStepCheckout grouped cartItems)
   = pairsOf grouped \<union> (\<lambda>item. (gameOf item, variationIdOf item)) ` set cartItems"
  by (induction cartItems arbitrary: grouped) (auto simp: pairsOf_groupStep)

lemma list_all_nested:
  "list_all (\<lambda>(g, vm). list_all (\<lambda>(v, xs). P g v) vm) grouped \<longleftrightarrow> (\<forall>(g, v)\<in>pairsOf grouped. P g v)"
  by (fastforce simp: pairsOf_def list_all_iff)

lemma rememberFirst_values:
  "snd ` set (foldl rememberFirst acc xs)
   = snd ` set acc
     \<union> {x \<in> set xs. gameOf x \<notin> fst ` set acc \<and> find (\<lambda>i. gameOf i = gameOf x) xs = Some x}"
proof (induction xs arbitrary: acc)
  case Nil
  show ?case by simp
next
  case (Cons y ys)
  let ?A = "fst ` set acc"
  show ?case
  proof (cases "map_of acc (gameOf y) = None")
    case True
    then have fresh: "gameOf y \<notin> ?A"
      by (simp add: map_of_eq_None_iff)
    from True have step: "rememberFirst acc y = acc @ [(gameOf y, y)]"
      by (simp add: rememberFirst_def mapSet_fresh)
    have "{x \<in> set (y # ys). gameOf x \<notin> ?A \<and> find (\<lambda>i. gameOf i = gameOf x) (y # ys) = Some x}
          = insert y {x \<in> set ys. gameOf x \<notin> insert (gameOf y) ?A
                        \<and> find (\<lambda>i. gameOf i = gameOf x) ys = Some x}"
      using fresh by auto
    then show ?thesis
      by (simp add: step Cons.IH)
  next
    case False
    then have seen: "gameOf y \<in> ?A"
      by (simp add: map_of_eq_None_iff)
    from False have step: "rememberFirst acc y = acc"
      by (simp add: rememberFirst_def)
    have "{x \<in> set (y # ys). gameOf x \<notin> ?A \<and> find (\<lambda>i. gameOf i = gameOf x) (y # ys) = Some x}
          = {x \<in> set ys. gameOf x \<notin> ?A \<and> find (\<lambda>i. gameOf i = gameOf x) ys = Some x}"
      using seen by (auto simp: image_iff)
    then show ?thesis
      by (simp add: step Cons.IH)
  qed
qed

lemma set_itemsWithCustomFields:
  "set (itemsWithCustomFields cartItems)
   = {x \<in> set (filter hasCustomFields cartItems).
        find (\<lambda>i. gameOf i = gameOf x) (filter hasCustomFields cartItems) = Some x}"
  unfolding itemsWithCustomFields_def set_map rememberFirst_values by simp

lemma hasAnyCustomFields_iff:
  "hasAnyCustomFields cartItems \<longleftrightarrow> filter hasCustomFields cartItems \<noteq> []"
proof (cases "filter hasCustomFields cartItems")
  case Nil
  then have "set (itemsWithCustomFields cartItems) = {}"
    by (simp add: set_itemsWithCustomFields)
  with Nil show ?thesis by (simp add: hasAnyCustomFields_def)
next
  case (Cons y ys)
  then have "y \<in> set (itemsWithCustomFields cartItems)"
    by (simp add: set_itemsWithCustomFields)
  with Cons show ?thesis by (auto simp: hasAnyCustomFields_def)
qed

lemma game_body:
  "(case find (\<lambda>item. gameOf item = g) cartItems of
      None \<Rightarrow> True
    | Some firstItem \<Rightarrow>
        (case customFields firstItem of
           None \<Rightarrow> True
         | Some fs \<Rightarrow>
             list_all (\<lambda>(variationId, items).
               list_all (\<lambda>field.
                 if \<not> required field then True
                 else filled vals (gameOf firstItem @ ''_'' @ variationId @ ''_'' @ field_key field))
                 fs)
               vm))
   = list_all (\<lambda>(v, items). \<forall>f\<in>set (gameFields cartItems g).
                required f \<longrightarrow> filled vals (g @ ''_'' @ v @ ''_'' @ field_key f)) vm"
proof (cases "find (\<lambda>item. gameOf item = g) cartItems")
  case None
  then show ?thesis by (simp add: gameFields_def list_all_iff split: prod.splits)
next
  case (Some firstItem)
  then have "gameOf firstItem = g"
    by (auto simp: find_Some_iff)
  with Some show ?thesis
    by (auto simp: gameFields_def itemFields_def list_all_iff split: option.splits prod.splits)
qed

lemma isDetailsValid_multi_custom:
  assumes "useMultipleAccounts st" and "hasAnyCustomFields cartItems"
  shows "isDetailsValid st cartItems \<longleftrightarrow>
         (\<forall>item\<in>set cartItems. \<forall>f\<in>set (gameFields cartItems (gameOf item)). required f \<longrightarrow>
            filled (customFieldValues st)
              (gameOf item @ ''_'' @ variationIdOf item @ ''_'' @ field_key f))"
proof -
  have "isDetailsValid st cartItems \<longleftrightarrow>
        list_all (\<lambda>(g, vm). list_all (\<lambda>(v, items). \<forall>f\<in>set (gameFields cartItems g).
                required f \<longrightarrow> filled (customFieldValues st) (g @ ''_'' @ v @ ''_'' @ field_key f)) vm)
          (foldl groupStepCheckout [] cartItems)"
    using assms by (simp add: isDetailsValid_def itemsByGameAndVariation_def game_body)
  also have "\<dots> \<longleftrightarrow> (\<forall>(g, v)\<in>pairsOf (foldl groupStepCheckout [] cartItems).
                \<forall>f\<in>set (gameFields cartItems g).
                  required f \<longrightarrow> filled (customFieldValues st) (g @ ''_'' @ v @ ''_'' @ field_key f))"
    by (rule list_all_nested)
  finally show ?thesis
    by (simp add: pairsOf_foldl pairsOf_Nil)
qed

lemma isDetailsValid_multi_default:
  assumes "useMultipleAccounts st" and "\<not> hasAnyCustomFields cartItems"
  shows "isDetailsValid st cartItems \<longleftrightarrow>
         (\<forall>item\<in>set cartItems.
            filled (customFieldValues st)
              (''default_'' @ gameOf item @ ''_'' @ variationIdOf item @ ''_ign''))"
proof -
  have "isDetailsValid st cartItems \<longleftrightarrow>
        list_all (\<lambda>(g, vm). list_all (\<lambda>(v, items).
            filled (customFieldValues st) (''default_'' @ g @ ''_'' @ v @ ''_ign'')) vm)
          (foldl groupStepCheckout [] cartItems)"
    using assms by (simp add: isDetailsValid_def itemsByGameAndVariation_def)
  also have "\<dots> \<longleftrightarrow> (\<forall>(g, v)\<in>pairsOf (foldl groupStepCheckout [] cartItems).
                filled (customFieldValues st) (''default_'' @ g @ ''_'' @ v @ ''_ign''))"
    by (rule list_all_nested)
  finally show ?thesis
    by (simp add: pairsOf_foldl pairsOf_Nil)
qed

lemma item_body:
  "(case customFields item of
      None \<Rightarrow> True
    | Some fs \<Rightarrow> list_all (\<lambda>field. if \<not> required field then True else P field) fs)
   = (\<forall>f\<in>set (itemFields item). required f \<longrightarrow> P f)"
  by (auto simp: itemFields_def list_all_iff split: option.splits)

lemma isDetailsValid_single_custom:
  assumes "\<not> useMultipleAccounts st" and "hasAnyCustomFields cartItems"
  shows "isDetailsValid st cartItems \<longleftrightarrow>
         (\<forall>item\<in>set (itemsWithCustomFields cartItems). \<forall>f\<in>set (itemFields item). required f \<longrightarrow>
            filled (customFieldValues st) (gameOf item @ ''_'' @ field_key f))"
  using assms by (simp add: isDetailsValid_def item_body list_all_iff)

lemma isDetailsValid_single_default:
  assumes "\<not> useMultipleAccounts st" and "\<not> hasAnyCustomFields cartItems"
  shows "isDetailsValid st cartItems \<longleftrightarrow> filled (customFieldValues st) ''default_ign''"
  using assms by (simp add: isDetailsValid_def)

lemma isDetailsValid_iff_no_required_field_blank:
  "(\<not> isDetailsValid st cartItems)
   = (\<exists>k\<in>set (requiredFieldKeys (useMultipleAccounts st) cartItems).
        blankValue (customFieldValues st) k)"
proof (cases "useMultipleAccounts st")
  case multi: True
  show ?thesis
  proof (cases "hasAnyCustomFields cartItems")
    case True
    then have "filter hasCustomFields cartItems \<noteq> []"
      by (simp add: hasAnyCustomFields_iff)
    then show ?thesis
      using multi True
      by (simp add: isDetailsValid_multi_custom requiredFieldKeys_def filled_iff_not_blank;
          fastforce)
  next
    case False
    then have "filter hasCustomFields cartItems = []"
      by (simp add: hasAnyCustomFields_iff)
    then show ?thesis
      using multi False
      by (simp add: isDetailsValid_multi_default requiredFieldKeys_def filled_iff_not_blank;
          fastforce)
  qed
next
  case single: False
  show ?thesis
  proof (cases "hasAnyCustomFields cartItems")
    case True
    then have "filter hasCustomFields cartItems \<noteq> []"
      by (simp add: hasAnyCustomFields_iff)
    then show ?thesis
      using single True
      by (simp add: isDetailsValid_single_custom requiredFieldKeys_def filled_iff_not_blank
          set_itemsWithCustomFields;
          fastforce)
  next
    case False
    then have "filter hasCustomFields cartItems = []"
      by (simp add: hasAnyCustomFields_iff)
    then show ?thesis
      using single False
      by (simp add: isDetailsValid_single_default requiredFieldKeys_def filled_iff_not_blank)
  qed
qed

text \<open>
  C5. In the details step the Proceed to Payment button advances to the payment step
  unless it is disabled, and it is disabled exactly when some required field of the active
  mode (\<open>requiredFieldKeys\<close>: per applicable item in single-account mode, per item and
  variation in multiple-accounts mode, the default in-game name when no cart item defines
  custom fields) has a missing, empty or whitespace-only value in \<open>customFieldValues\<close>,
  white space being what \<open>trim\<close> strips (\<open>isWhitespace\<close>: a value of no-break spaces
  is blank as well).
\<close>

theorem details_to_payment_blocked_iff:
  assumes "step st = details"
  shows "(step (clickProceedToPayment st cartItems) \<noteq> payment)
         = (\<exists>k\<in>set (requiredFieldKeys (useMultipleAccounts st) cartItems).
              blankValue (customFieldValues st) k)"
  using assms isDetailsValid_iff_no_required_field_blank[of st cartItems]
  by (auto simp: clickProceedToPayment_def)

theorem details_to_payment_blocked_iff_witness:
  "step exCheckout = details
   \<and> requiredFieldKeys False exCart = [''g1_ign'']
   \<and> requiredFieldKeys True exCart = [''g1_v1_ign'', ''g1_v2_ign'']
   \<and> step (clickProceedToPayment (exCheckout\<lparr>customFieldValues := [''g1_ign'' \<mapsto> codeUnits ''  '']\<rparr>) exCart)
       \<noteq> payment
   \<and> step (clickProceedToPayment (exCheckout\<lparr>customFieldValues := [''g1_ign'' \<mapsto> [0x00A0, 0x3000]]\<rparr>) exCart)
       \<noteq> payment
   \<and> step (clickProceedToPayment (exCheckout\<lparr>customFieldValues := [''g1_ign'' \<mapsto> codeUnits '' x '']\<rparr>) exCart)
       = payment
   \<and> step (clickProceedToPayment
              (exCheckout\<lparr>customFieldValues := [''g1_v1_ign'' \<mapsto> codeUnits ''x''], useMultipleAccounts := True\<rparr>)
              exCart) \<noteq> payment
   \<and> requiredFieldKeys False exPlainCart = [''default_ign'']
   \<and> step (clickProceedToPayment (exCheckout\<lparr>customFieldValues := [''default_ign'' \<mapsto> [0x00A0]]\<rparr>)
              exPlainCart) \<noteq> payment"
proof -
  let ?plain = "exCheckout\<lparr>customFieldValues := [''default_ign'' \<mapsto> [0x00A0]]\<rparr>"
  let ?blank = "exCheckout\<lparr>customFieldValues := [''g1_ign'' \<mapsto> codeUnits ''  '']\<rparr>"
  let ?nbsp = "exCheckout\<lparr>customFieldValues := [''g1_ign'' \<mapsto> [0x00A0, 0x3000]]\<rparr>"
  let ?ok = "exCheckout\<lparr>customFieldValues := [''g1_ign'' \<mapsto> codeUnits '' x '']\<rparr>"
  let ?multi = "exCheckout\<lparr>customFieldValues := [''g1_v1_ign'' \<mapsto> codeUnits ''x''], useMultipleAccounts := True\<rparr>"
  have keys: "requiredFieldKeys False exCart = [''g1_ign'']"
    "requiredFieldKeys True exCart = [''g1_v1_ign'', ''g1_v2_ign'']"
    by code_simp+
  have st: "step ?blank = details" "step ?ok = details" "step ?multi = details"
    "step exCheckout = details" "step ?nbsp = details"
    by (simp_all add: exCheckout_def)
  have modes: "useMultipleAccounts ?blank = False" "useMultipleAccounts ?ok = False"
    "useMultipleAccounts ?multi = True" "useMultipleAccounts ?nbsp = False"
    by (simp_all add: exCheckout_def)
  have 1: "step (clickProceedToPayment ?blank exCart) \<noteq> payment"
    unfolding details_to_payment_blocked_iff[OF st(1)] modes keys
    by (simp add: blankValue_def isWhitespace_def codeUnits_def)
  have 2: "step (clickProceedToPayment ?ok exCart) = payment"
    using details_to_payment_blocked_iff[OF st(2), of exCart] unfolding modes keys
    by (simp add: blankValue_def isWhitespace_def codeUnits_def)
  have 3: "step (clickProceedToPayment ?multi exCart) \<noteq> payment"
    unfolding details_to_payment_blocked_iff[OF st(3)] modes keys
    by (simp add: blankValue_def)
  have 4: "step (clickProceedToPayment ?nbsp exCart) \<noteq> payment"
    unfolding details_to_payment_blocked_iff[OF st(5)] modes keys
    by (simp add: blankValue_def isWhitespace_def)
  have plainKeys: "requiredFieldKeys False exPlainCart = [''default_ign'']"
    by code_simp
  have plainSt: "step ?plain = details" "useMultipleAccounts ?plain = False"
    by (simp_all add: exCheckout_def)
  have 5: "step (clickProceedToPayment ?plain exPlainCart) \<noteq> payment"
    unfolding details_to_payment_blocked_iff[OF plainSt(1)] plainSt(2) plainKeys
    by (simp add: blankValue_def isWhitespace_def)
  from keys st(4) 1 2 3 4 plainKeys 5 show ?thesis by simp
qed

subsection \<open>Resuming an order\<close>

lemma fields_fold_at:
  "foldl (\<lambda>loaded' field. if field_label field = key then loaded'(kf field \<mapsto> val) else loaded')
     l fs K
   = (if \<exists>f\<in>set fs. field_label f = key \<and> kf f = K then Some val else l K)"
  by (induction fs arbitrary: l) auto

lemma items_fold_at:
  "foldl (\<lambda>loaded item.
            foldl (\<lambda>loaded' field.
                     if field_label field = key
                     then loaded'(gameOf item @ ''_'' @ field_key field \<mapsto> val)
                     else loaded')
              loaded (itemFields item))
     l items K
   = (if \<exists>item\<in>set items. \<exists>f\<in>set (itemFields item).
           field_label f = key \<and> gameOf item @ ''_'' @ field_key f = K
      then Some val else l K)"
proof (induction items arbitrary: l)
  case Nil
  show ?case by simp
next
  case (Cons i items)
  have "foldl (\<lambda>loaded' field.
                 if field_label field = key
                 then loaded'(gameOf i @ ''_'' @ field_key field \<mapsto> val)
                 else loaded') l (itemFields i) K
        = (if \<exists>f\<in>set (itemFields i). field_label f = key \<and> gameOf i @ ''_'' @ field_key f = K
           then Some val else l K)" for l
    by (rule fields_fold_at)
  then show ?case
    by (cases "\<exists>f\<in>set (itemFields i). field_label f = key \<and> gameOf i @ ''_'' @ field_key f = K")
       (auto simp: Cons.IH)
qed

lemma loadEntry_custom_at:
  assumes "hasAnyCustomFields cartItems"
  shows "loadEntry cartItems l (key, val) K
         = (if key \<noteq> ''Payment Method''
               \<and> (\<exists>item\<in>set (itemsWithCustomFields cartItems). \<exists>f\<in>set (itemFields item).
                     field_label f = key \<and> gameOf item @ ''_'' @ field_key f = K)
            then Some val else l K)"
proof (cases "key = ''Payment Method''")
  case True
  then show ?thesis by (simp add: loadEntry_def)
next
  case False
  have "loadEntry cartItems l (key, val) K
        = foldl (\<lambda>loaded item.
            foldl (\<lambda>loaded' field.
                     if field_label field = key
                     then loaded'(gameOf item @ ''_'' @ field_key field \<mapsto> val)
                     else loaded')
              loaded (itemFields item))
           l (itemsWithCustomFields cartItems) K"
    using assms False by (simp add: loadEntry_def)
  then show ?thesis
    using False by (simp only: items_fold_at simp_thms)
qed

lemma loadEntry_default_at:
  assumes "\<not> hasAnyCustomFields cartItems"
  shows "loadEntry cartItems l (key, val) K
         = (if key = ''IGN'' \<and> K = ''default_ign'' then Some val else l K)"
  using assms by (simp add: loadEntry_def)

lemma entries_fold_miss:
  assumes upd: "\<And>l key val. load l (key, val) K = (if hit key then Some val else l K)"
    and miss: "\<forall>key'\<in>fst ` set es. \<not> hit key'"
  shows "foldl load l es K = l K"
  using miss
proof (induction es arbitrary: l)
  case Nil
  show ?case by simp
next
  case (Cons x xs)
  obtain a b where x: "x = (a, b)" by (cases x)
  from Cons.prems x have "\<not> hit a" by simp
  then have "load l (a, b) K = l K" by (simp add: upd)
  moreover from Cons.prems have "\<forall>key'\<in>fst ` set xs. \<not> hit key'" by simp
  then have "foldl load (load l (a, b)) xs K = load l (a, b) K" by (rule Cons.IH)
  ultimately show ?case by (simp add: x)
qed

lemma entries_fold_hit:
  assumes upd: "\<And>l key val. load l (key, val) K = (if hit key then Some val else l K)"
    and dist: "distinct (map fst es)" and mem: "(key, v) \<in> set es" and hit: "hit key"
    and only: "\<forall>key'\<in>fst ` set es. hit key' \<longrightarrow> key' = key"
  shows "foldl load l es K = Some v"
  using dist mem only
proof (induction es arbitrary: l)
  case Nil
  then show ?case by simp
next
  case (Cons x xs)
  obtain a b where x: "x = (a, b)" by (cases x)
  from Cons.prems(1) x have a_new: "a \<notin> fst ` set xs" and dist_xs: "distinct (map fst xs)"
    by simp_all
  from Cons.prems(3) have only_xs: "\<forall>key'\<in>fst ` set xs. hit key' \<longrightarrow> key' = key"
    by simp
  show ?case
  proof (cases "(key, v) \<in> set xs")
    case True
    have "foldl load (load l (a, b)) xs K = Some v"
      by (rule Cons.IH[OF dist_xs True only_xs])
    then show ?thesis by (simp add: x)
  next
    case False
    with Cons.prems(2) x have here: "a = key" "b = v" by simp_all
    have "\<forall>key'\<in>fst ` set xs. \<not> hit key'"
    proof
      fix key' assume k: "key' \<in> fst ` set xs"
      show "\<not> hit key'"
      proof
        assume "hit key'"
        with only_xs k have "key' = key" by blast
        with k a_new here show False by simp
      qed
    qed
    then have "foldl load (load l (a, b)) xs K = load l (a, b) K"
      by (rule entries_fold_miss[where load = load and K = K and hit = hit, OF upd])
    also have "\<dots> = Some v" using hit here by (simp add: upd)
    finally show ?thesis by (simp add: x)
  qed
qed

lemma loaded_default_ign:
  assumes "\<not> hasAnyCustomFields cartItems" and "multiple_accounts info = None"
    and "distinct (map fst (info_entries info))" and "(''IGN'', v) \<in> set (info_entries info)"
  shows "loadedValuesOf cartItems info ''default_ign'' = Some v"
proof -
  have "foldl (loadEntry cartItems) Map.empty (info_entries info) ''default_ign'' = Some v"
    by (rule entries_fold_hit[where hit = "\<lambda>key. key = ''IGN''" and key = "''IGN''"])
       (use assms in \<open>simp_all add: loadEntry_default_at\<close>)
  with assms(2) show ?thesis by (simp add: loadedValuesOf_def)
qed

lemma loaded_custom_field:
  assumes "hasAnyCustomFields cartItems" and "multiple_accounts info = None"
    and "distinct (map fst (info_entries info))"
    and "item \<in> set (itemsWithCustomFields cartItems)" and "f \<in> set (itemFields item)"
    and "(field_label f, v) \<in> set (info_entries info)"
    and "field_label f \<noteq> ''Payment Method''"
    and own: "\<forall>item'\<in>set (itemsWithCustomFields cartItems). \<forall>f'\<in>set (itemFields item').
            gameOf item' @ ''_'' @ field_key f' = gameOf item @ ''_'' @ field_key f
            \<longrightarrow> field_label f' = field_label f"
  shows "loadedValuesOf cartItems info (gameOf item @ ''_'' @ field_key f) = Some v"
proof -
  let ?K = "gameOf item @ ''_'' @ field_key f"
  let ?hit = "\<lambda>key. key \<noteq> ''Payment Method''
               \<and> (\<exists>item\<in>set (itemsWithCustomFields cartItems). \<exists>f\<in>set (itemFields item).
                     field_label f = key \<and> gameOf item @ ''_'' @ field_key f = ?K)"
  have "foldl (loadEntry cartItems) Map.empty (info_entries info) ?K = Some v"
  proof (rule entries_fold_hit[where hit = ?hit and key = "field_label f"])
    show "loadEntry cartItems l (key, val) ?K = (if ?hit key then Some val else l ?K)" for l key val
      using assms(1) by (rule loadEntry_custom_at)
    show "distinct (map fst (info_entries info))" by fact
    show "(field_label f, v) \<in> set (info_entries info)" by fact
    show "?hit (field_label f)" using assms(4,5,7) by blast
    show "\<forall>key'\<in>fst ` set (info_entries info). ?hit key' \<longrightarrow> key' = field_label f"
      using own by blast
  qed
  with assms(2) show ?thesis by (simp add: loadedValuesOf_def)
qed

lemma fields_fold_writes:
  "foldl (\<lambda>loaded field.
            case map_of af (field_label field) of
              None \<Rightarrow> loaded
            | Some fieldValue \<Rightarrow>
                if fieldValue = [] then loaded else loaded(kf field \<mapsto> fieldValue))
     l fs
   = foldl (\<lambda>loaded kv. loaded(fst kv \<mapsto> snd kv)) l
       (concat (map (\<lambda>field.
                       case map_of af (field_label field) of
                         None \<Rightarrow> []
                       | Some fieldValue \<Rightarrow>
                           if fieldValue = [] then [] else [(kf field, fieldValue)])
                  fs))"
  by (induction fs arbitrary: l) (simp_all split: option.splits)

lemma loadAccount_writes:
  "loadAccount cartItems l account
   = foldl (\<lambda>loaded kv. loaded(fst kv \<mapsto> snd kv)) l (accountWrites cartItems account)"
proof (cases "find (\<lambda>item. item_name item = game account
                        \<and> map_option variation_name (selectedVariation item) = Some (package account))
             cartItems")
  case None
  then show ?thesis by (simp add: loadAccount_def accountWrites_def)
next
  case (Some m)
  show ?thesis
  proof (cases "hasAnyCustomFields cartItems \<and> customFields m \<noteq> None")
    case True
    then show ?thesis
      unfolding loadAccount_def accountWrites_def Some
      by (simp add: fields_fold_writes)
  next
    case False
    then have "\<not> hasAnyCustomFields cartItems \<or> customFields m = None" by simp
    then show ?thesis
      unfolding loadAccount_def accountWrites_def Some
      by (auto split: option.splits)
  qed
qed

lemma foldl_loadAccount_writes:
  "foldl (loadAccount cartItems) l accounts
   = foldl (\<lambda>loaded kv. loaded(fst kv \<mapsto> snd kv)) l
       (concat (map (accountWrites cartItems) accounts))"
  by (induction accounts arbitrary: l) (simp_all add: loadAccount_writes)

lemma writes_snoc:
  "foldl (\<lambda>loaded kv. loaded(fst kv \<mapsto> snd kv)) l (ws @ [x]) K
   = (if K = fst x then Some (snd x) else foldl (\<lambda>loaded kv. loaded(fst kv \<mapsto> snd kv)) l ws K)"
  by (simp only: foldl_append foldl.simps fun_upd_apply)

lemma writes_last:
  assumes "(K, w) \<in> set ws" and "\<forall>kv\<in>set ws. fst kv = K \<longrightarrow> snd kv = w"
  shows "foldl (\<lambda>loaded kv. loaded(fst kv \<mapsto> snd kv)) l ws K = Some w"
  using assms
proof (induction ws rule: rev_induct)
  case Nil
  then show ?case by simp
next
  case (snoc x xs)
  show ?case
  proof (cases "fst x = K")
    case True
    with snoc.prems(2) have "snd x = w" by simp
    with True show ?thesis by (simp only: writes_snoc if_True refl)
  next
    case False
    with snoc.prems(1) have "(K, w) \<in> set xs" by auto
    moreover from snoc.prems(2) have "\<forall>kv\<in>set xs. fst kv = K \<longrightarrow> snd kv = w" by simp
    ultimately have "foldl (\<lambda>loaded kv. loaded(fst kv \<mapsto> snd kv)) l xs K = Some w"
      by (rule snoc.IH)
    moreover from False have "K \<noteq> fst x" by blast
    ultimately show ?thesis by (simp only: writes_snoc if_False)
  qed
qed

lemma writes_miss:
  assumes "K \<notin> fst ` set ws"
  shows "foldl (\<lambda>loaded kv. loaded(fst kv \<mapsto> snd kv)) l ws K = l K"
  using assms
proof (induction ws rule: rev_induct)
  case Nil
  then show ?case by simp
next
  case (snoc x xs)
  from snoc.prems have "K \<noteq> fst x" and "K \<notin> fst ` set xs" by auto
  with snoc.IH show ?case by (simp only: writes_snoc if_False simp_thms)
qed

lemma loaded_account_value:
  assumes multi: "multiple_accounts info = Some accounts"
    and a: "a \<in> set accounts" and w: "(K, w) \<in> set (accountWrites cartItems a)"
    and own: "\<forall>a'\<in>set accounts. \<forall>kv\<in>set (accountWrites cartItems a'). fst kv = K \<longrightarrow> snd kv = w"
  shows "loadedValuesOf cartItems info K = Some w"
proof -
  let ?ws = "concat (map (accountWrites cartItems) accounts)"
  from a w have "(K, w) \<in> set ?ws" by auto
  moreover from own have "\<forall>kv\<in>set ?ws. fst kv = K \<longrightarrow> snd kv = w" by auto
  ultimately have "foldl (\<lambda>loaded kv. loaded(fst kv \<mapsto> snd kv)) Map.empty ?ws K = Some w"
    by (rule writes_last)
  with multi show ?thesis
    by (simp add: loadedValuesOf_def foldl_loadAccount_writes)
qed

lemma loaded_account_untouched:
  assumes multi: "multiple_accounts info = Some accounts"
    and none: "\<forall>a'\<in>set accounts. K \<notin> fst ` set (accountWrites cartItems a')"
  shows "loadedValuesOf cartItems info K = None"
proof -
  let ?ws = "concat (map (accountWrites cartItems) accounts)"
  from none have "K \<notin> fst ` set ?ws" by auto
  then have "foldl (\<lambda>loaded kv. loaded(fst kv \<mapsto> snd kv)) Map.empty ?ws K = Map.empty K"
    by (rule writes_miss)
  with multi show ?thesis
    by (simp add: loadedValuesOf_def foldl_loadAccount_writes)
qed


lemma accountWrites_custom:
  assumes m: "find (\<lambda>item. item_name item = game a
                        \<and> map_option variation_name (selectedVariation item) = Some (package a))
             cartItems = Some m"
    and h: "hasAnyCustomFields cartItems" and fs: "customFields m = Some fs" and f: "f \<in> set fs"
    and w: "map_of (account_fields a) (field_label f) = Some w" and ne: "w \<noteq> []"
  shows "(gameOf m @ ''_'' @ variationIdOf m @ ''_'' @ field_key f, w) \<in> set (accountWrites cartItems a)"
proof -
  let ?g = "\<lambda>field. case map_of (account_fields a) (field_label field) of
                      None \<Rightarrow> []
                    | Some fieldValue \<Rightarrow> if fieldValue = [] then []
                        else [(gameOf m @ ''_'' @ variationIdOf m @ ''_'' @ field_key field, fieldValue)]"
  from h fs have "accountWrites cartItems a = concat (map ?g (itemFields m))"
    unfolding accountWrites_def m by simp
  moreover from fs f have "f \<in> set (itemFields m)" by (simp add: itemFields_def)
  moreover from w ne have "(gameOf m @ ''_'' @ variationIdOf m @ ''_'' @ field_key f, w) \<in> set (?g f)"
    by simp
  ultimately show ?thesis by (simp only: set_concat set_map) blast
qed

lemma accountWrites_default:
  assumes m: "find (\<lambda>item. item_name item = game a
                        \<and> map_option variation_name (selectedVariation item) = Some (package a))
             cartItems = Some m"
    and h: "\<not> hasAnyCustomFields cartItems \<or> customFields m = None"
    and w: "map_of (account_fields a) ''IGN'' = Some w" and ne: "w \<noteq> []"
  shows "(''default_'' @ gameOf m @ ''_'' @ variationIdOf m @ ''_ign'', w) \<in> set (accountWrites cartItems a)"
proof -
  show ?thesis unfolding accountWrites_def m using h w ne by auto
qed

lemma writes_at:
  "foldl (\<lambda>loaded kv. loaded(fst kv \<mapsto> snd kv)) l ws K
   = (if filter (\<lambda>kv. fst kv = K) ws = [] then l K
      else Some (snd (last (filter (\<lambda>kv. fst kv = K) ws))))"
proof (induction ws rule: rev_induct)
  case Nil
  show ?case by simp
next
  case (snoc x xs)
  show ?case
  proof (cases "fst x = K")
    case True
    then show ?thesis
      by (simp only: writes_snoc filter_append filter.simps if_True refl) simp
  next
    case False
    then have "K \<noteq> fst x" by blast
    with False snoc.IH show ?thesis
      by (simp only: writes_snoc filter_append filter.simps if_False append_Nil2)
  qed
qed

lemma loaded_account_last:
  assumes multi: "multiple_accounts info = Some accounts"
  shows "loadedValuesOf cartItems info K
         = (if filter (\<lambda>kv. fst kv = K) (concat (map (accountWrites cartItems) accounts)) = []
            then None
            else Some (snd (last (filter (\<lambda>kv. fst kv = K)
                                    (concat (map (accountWrites cartItems) accounts))))))"
  using multi by (simp add: loadedValuesOf_def foldl_loadAccount_writes writes_at)

text \<open>
  C2 (as the code has it). When checkout mounts with a stored \<open>current_order_id\<close> and
  the order is fetched: for status \<open>approved\<close> the stored id is cleared, the order
  references of the component are reset and the form is left alone; for status
  \<open>rejected\<close> the stored id is cleared as well, while the component keeps the order's id
  and status; and a rejected order with \<open>customer_info\<close> sets multiple-accounts mode to
  whether the record has a \<open>Multiple Accounts\<close> entry and merges the values loaded from
  the record over the form's values. In single-account mode with distinct entry keys, an
  \<open>IGN\<close> entry arrives under \<open>default_ign\<close> when no cart item defines fields, and the
  entry of a field's label arrives under that field's key (the key being used by fields of
  that label only). In multiple-accounts mode every stored account is matched to the first
  cart line of its game name and package name, and its non-empty values arrive under that
  line's keys: the value of a field's label under game, variation and field key when the
  cart defines fields and the line has a field list, the \<open>IGN\<close> value under the line's
  default key otherwise (the key being given no other value by the stored accounts); a key
  that no stored account writes keeps the form's value, and every other key holds the
  value that was written to it last.
\<close>

theorem checkExistingOrder_approved_or_rejected:
  assumes "current_order_id st = Some oid" and "oid \<noteq> []" and "fetchOrderById oid = Some order"
  shows "(order_status order = approved \<longrightarrow>
            current_order_id (checkExistingOrder fetchOrderById cartItems st) = None
          \<and> orderId (checkExistingOrder fetchOrderById cartItems st) = None
          \<and> existingOrderId (checkExistingOrder fetchOrderById cartItems st) = None
          \<and> existingOrderStatus (checkExistingOrder fetchOrderById cartItems st) = None
          \<and> customFieldValues (checkExistingOrder fetchOrderById cartItems st) = customFieldValues st
          \<and> useMultipleAccounts (checkExistingOrder fetchOrderById cartItems st)
              = useMultipleAccounts st)
       \<and> (order_status order = rejected \<longrightarrow>
            current_order_id (checkExistingOrder fetchOrderById cartItems st) = None
          \<and> orderId (checkExistingOrder fetchOrderById cartItems st) = Some (order_id order)
          \<and> existingOrderId (checkExistingOrder fetchOrderById cartItems st) = Some (order_id order)
          \<and> existingOrderStatus (checkExistingOrder fetchOrderById cartItems st) = Some rejected)
       \<and> (order_status order = rejected \<and> customer_info order = Some info \<longrightarrow>
            useMultipleAccounts (checkExistingOrder fetchOrderById cartItems st)
              = (multiple_accounts info \<noteq> None)
          \<and> customFieldValues (checkExistingOrder fetchOrderById cartItems st)
              = customFieldValues st ++ loadedValuesOf cartItems info)
       \<and> (order_status order = rejected \<and> customer_info order = Some info
          \<and> multiple_accounts info = None \<and> distinct (map fst (info_entries info))
          \<and> \<not> hasAnyCustomFields cartItems \<and> (''IGN'', v) \<in> set (info_entries info) \<longrightarrow>
            customFieldValues (checkExistingOrder fetchOrderById cartItems st) ''default_ign''
              = Some v)
       \<and> (order_status order = rejected \<and> customer_info order = Some info
          \<and> multiple_accounts info = None \<and> distinct (map fst (info_entries info))
          \<and> item \<in> set (itemsWithCustomFields cartItems) \<and> f \<in> set (itemFields item)
          \<and> (field_label f, w) \<in> set (info_entries info)
          \<and> field_label f \<noteq> ''Payment Method''
          \<and> (\<forall>item'\<in>set (itemsWithCustomFields cartItems). \<forall>f'\<in>set (itemFields item').
                gameOf item' @ ''_'' @ field_key f' = gameOf item @ ''_'' @ field_key f
                \<longrightarrow> field_label f' = field_label f) \<longrightarrow>
            customFieldValues (checkExistingOrder fetchOrderById cartItems st)
              (gameOf item @ ''_'' @ field_key f) = Some w)
       \<and> (order_status order = rejected \<and> customer_info order = Some info
          \<and> multiple_accounts info = Some accounts \<and> a \<in> set accounts
          \<and> find (\<lambda>item. item_name item = game a
                          \<and> map_option variation_name (selectedVariation item) = Some (package a))
               cartItems = Some m
          \<and> hasAnyCustomFields cartItems \<and> customFields m = Some fs \<and> g \<in> set fs
          \<and> map_of (account_fields a) (field_label g) = Some u \<and> u \<noteq> []
          \<and> (\<forall>a'\<in>set accounts. \<forall>kv\<in>set (accountWrites cartItems a').
                fst kv = gameOf m @ ''_'' @ variationIdOf m @ ''_'' @ field_key g
                \<longrightarrow> snd kv = u) \<longrightarrow>
            customFieldValues (checkExistingOrder fetchOrderById cartItems st)
              (gameOf m @ ''_'' @ variationIdOf m @ ''_'' @ field_key g) = Some u)
       \<and> (order_status order = rejected \<and> customer_info order = Some info
          \<and> multiple_accounts info = Some accounts \<and> a \<in> set accounts
          \<and> find (\<lambda>item. item_name item = game a
                          \<and> map_option variation_name (selectedVariation item) = Some (package a))
               cartItems = Some m
          \<and> (\<not> hasAnyCustomFields cartItems \<or> customFields m = None)
          \<and> map_of (account_fields a) ''IGN'' = Some u \<and> u \<noteq> []
          \<and> (\<forall>a'\<in>set accounts. \<forall>kv\<in>set (accountWrites cartItems a').
                fst kv = ''default_'' @ gameOf m @ ''_'' @ variationIdOf m @ ''_ign''
                \<longrightarrow> snd kv = u) \<longrightarrow>
            customFieldValues (checkExistingOrder fetchOrderById cartItems st)
              (''default_'' @ gameOf m @ ''_'' @ variationIdOf m @ ''_ign'') = Some u)
       \<and> (order_status order = rejected \<and> customer_info order = Some info
          \<and> multiple_accounts info = Some accounts
          \<and> (\<forall>a'\<in>set accounts. K \<notin> fst ` set (accountWrites cartItems a')) \<longrightarrow>
            customFieldValues (checkExistingOrder fetchOrderById cartItems st) K
              = customFieldValues st K)
       \<and> (order_status order = rejected \<and> customer_info order = Some info
          \<and> multiple_accounts info = Some accounts \<longrightarrow>
            customFieldValues (checkExistingOrder fetchOrderById cartItems st) K'
              = (if filter (\<lambda>kv. fst kv = K') (concat (map (accountWrites cartItems) accounts)) = []
                 then customFieldValues st K'
                 else Some (snd (last (filter (\<lambda>kv. fst kv = K')
                                         (concat (map (accountWrites cartItems) accounts)))))))"
proof -
  let ?st' = "checkExistingOrder fetchOrderById cartItems st"
  have approved: "?st' = st\<lparr>current_order_id := None, existingOrderStatus := None,
               existingOrderId := None, orderId := None, isCheckingExistingOrder := False\<rparr>"
    if "order_status order = approved"
    using assms that by (simp add: checkExistingOrder_def Let_def)
  have rejected_none:
    "?st' = st\<lparr>existingOrderId := Some (order_id order), existingOrderStatus := Some rejected,
               orderId := Some (order_id order), current_order_id := None,
               isCheckingExistingOrder := False\<rparr>"
    if "order_status order = rejected" "customer_info order = None"
    using assms that by (simp add: checkExistingOrder_def Let_def)
  have rejected_some:
    "?st' = st\<lparr>existingOrderId := Some (order_id order), existingOrderStatus := Some rejected,
               orderId := Some (order_id order),
               useMultipleAccounts := (multiple_accounts i \<noteq> None),
               customFieldValues := customFieldValues st ++ loadedValuesOf cartItems i,
               current_order_id := None, isCheckingExistingOrder := False\<rparr>"
    if "order_status order = rejected" "customer_info order = Some i" for i
    using assms that by (simp add: checkExistingOrder_def loadCustomerInfo_def Let_def)
  show ?thesis
  proof (intro conjI impI)
    assume "order_status order = approved"
    note a = approved[OF this]
    show "current_order_id ?st' = None" "orderId ?st' = None" "existingOrderId ?st' = None"
      "existingOrderStatus ?st' = None" "customFieldValues ?st' = customFieldValues st"
      "useMultipleAccounts ?st' = useMultipleAccounts st"
      unfolding a by simp_all
  next
    assume r: "order_status order = rejected"
    show "current_order_id ?st' = None" "orderId ?st' = Some (order_id order)"
      "existingOrderId ?st' = Some (order_id order)" "existingOrderStatus ?st' = Some rejected"
      by (cases "customer_info order"; simp add: rejected_none[OF r] rejected_some[OF r])+
  next
    assume "order_status order = rejected \<and> customer_info order = Some info"
    then have s: "?st' = st\<lparr>existingOrderId := Some (order_id order),
               existingOrderStatus := Some rejected, orderId := Some (order_id order),
               useMultipleAccounts := (multiple_accounts info \<noteq> None),
               customFieldValues := customFieldValues st ++ loadedValuesOf cartItems info,
               current_order_id := None, isCheckingExistingOrder := False\<rparr>"
      using rejected_some by blast
    show "useMultipleAccounts ?st' = (multiple_accounts info \<noteq> None)"
      "customFieldValues ?st' = customFieldValues st ++ loadedValuesOf cartItems info"
      unfolding s by simp_all
  next
    assume h: "order_status order = rejected \<and> customer_info order = Some info
          \<and> multiple_accounts info = None \<and> distinct (map fst (info_entries info))
          \<and> \<not> hasAnyCustomFields cartItems \<and> (''IGN'', v) \<in> set (info_entries info)"
    then have r: "order_status order = rejected" and ci: "customer_info order = Some info"
      and single: "multiple_accounts info = None" and dist: "distinct (map fst (info_entries info))"
      and none: "\<not> hasAnyCustomFields cartItems" and ign: "(''IGN'', v) \<in> set (info_entries info)"
      by blast+
    have "loadedValuesOf cartItems info ''default_ign'' = Some v"
      by (rule loaded_default_ign[OF none single dist ign])
    moreover have "customFieldValues ?st' = customFieldValues st ++ loadedValuesOf cartItems info"
      unfolding rejected_some[OF r ci] by simp
    ultimately show "customFieldValues ?st' ''default_ign'' = Some v"
      by (simp add: map_add_Some_iff)
  next
    assume "order_status order = rejected \<and> customer_info order = Some info
          \<and> multiple_accounts info = None \<and> distinct (map fst (info_entries info))
          \<and> item \<in> set (itemsWithCustomFields cartItems) \<and> f \<in> set (itemFields item)
          \<and> (field_label f, w) \<in> set (info_entries info)
          \<and> field_label f \<noteq> ''Payment Method''
          \<and> (\<forall>item'\<in>set (itemsWithCustomFields cartItems). \<forall>f'\<in>set (itemFields item').
                gameOf item' @ ''_'' @ field_key f' = gameOf item @ ''_'' @ field_key f
                \<longrightarrow> field_label f' = field_label f)"
    then have r: "order_status order = rejected" and ci: "customer_info order = Some info"
      and single: "multiple_accounts info = None" and dist: "distinct (map fst (info_entries info))"
      and item: "item \<in> set (itemsWithCustomFields cartItems)" and f: "f \<in> set (itemFields item)"
      and entry: "(field_label f, w) \<in> set (info_entries info)"
      and lab: "field_label f \<noteq> ''Payment Method''"
      and own: "\<forall>item'\<in>set (itemsWithCustomFields cartItems). \<forall>f'\<in>set (itemFields item').
                gameOf item' @ ''_'' @ field_key f' = gameOf item @ ''_'' @ field_key f
                \<longrightarrow> field_label f' = field_label f"
      by blast+
    from item have "itemsWithCustomFields cartItems \<noteq> []" by (cases "itemsWithCustomFields cartItems") simp_all
    then have any: "hasAnyCustomFields cartItems" by (simp add: hasAnyCustomFields_def)
    have "loadedValuesOf cartItems info (gameOf item @ ''_'' @ field_key f) = Some w"
      by (rule loaded_custom_field[OF any single dist item f entry lab own])
    moreover have "customFieldValues ?st' = customFieldValues st ++ loadedValuesOf cartItems info"
      unfolding rejected_some[OF r ci] by simp
    ultimately show "customFieldValues ?st' (gameOf item @ ''_'' @ field_key f) = Some w"
      by (simp add: map_add_Some_iff)
  next
    assume "order_status order = rejected \<and> customer_info order = Some info
          \<and> multiple_accounts info = Some accounts \<and> a \<in> set accounts
          \<and> find (\<lambda>item. item_name item = game a
                          \<and> map_option variation_name (selectedVariation item) = Some (package a))
               cartItems = Some m
          \<and> hasAnyCustomFields cartItems \<and> customFields m = Some fs \<and> g \<in> set fs
          \<and> map_of (account_fields a) (field_label g) = Some u \<and> u \<noteq> []
          \<and> (\<forall>a'\<in>set accounts. \<forall>kv\<in>set (accountWrites cartItems a').
                fst kv = gameOf m @ ''_'' @ variationIdOf m @ ''_'' @ field_key g
                \<longrightarrow> snd kv = u)"
    then have r: "order_status order = rejected" and ci: "customer_info order = Some info"
      and multi: "multiple_accounts info = Some accounts" and a: "a \<in> set accounts"
      and m: "find (\<lambda>item. item_name item = game a
                          \<and> map_option variation_name (selectedVariation item) = Some (package a))
               cartItems = Some m"
      and any: "hasAnyCustomFields cartItems" and fs: "customFields m = Some fs"
      and g: "g \<in> set fs" and u: "map_of (account_fields a) (field_label g) = Some u"
      and ne: "u \<noteq> []"
      and own: "\<forall>a'\<in>set accounts. \<forall>kv\<in>set (accountWrites cartItems a').
                fst kv = gameOf m @ ''_'' @ variationIdOf m @ ''_'' @ field_key g
                \<longrightarrow> snd kv = u"
      by blast+
    have "(gameOf m @ ''_'' @ variationIdOf m @ ''_'' @ field_key g, u)
            \<in> set (accountWrites cartItems a)"
      by (rule accountWrites_custom[OF m any fs g u ne])
    with multi a
    have "loadedValuesOf cartItems info (gameOf m @ ''_'' @ variationIdOf m @ ''_'' @ field_key g)
            = Some u"
      using own by (rule loaded_account_value)
    moreover have "customFieldValues ?st' = customFieldValues st ++ loadedValuesOf cartItems info"
      unfolding rejected_some[OF r ci] by simp
    ultimately show "customFieldValues ?st' (gameOf m @ ''_'' @ variationIdOf m @ ''_'' @ field_key g)
                       = Some u"
      by (simp add: map_add_Some_iff)
  next
    assume h: "order_status order = rejected \<and> customer_info order = Some info
          \<and> multiple_accounts info = Some accounts \<and> a \<in> set accounts
          \<and> find (\<lambda>item. item_name item = game a
                          \<and> map_option variation_name (selectedVariation item) = Some (package a))
               cartItems = Some m
          \<and> (\<not> hasAnyCustomFields cartItems \<or> customFields m = None)
          \<and> map_of (account_fields a) ''IGN'' = Some u \<and> u \<noteq> []
          \<and> (\<forall>a'\<in>set accounts. \<forall>kv\<in>set (accountWrites cartItems a').
                fst kv = ''default_'' @ gameOf m @ ''_'' @ variationIdOf m @ ''_ign''
                \<longrightarrow> snd kv = u)"
    then have r: "order_status order = rejected" and ci: "customer_info order = Some info"
      and multi: "multiple_accounts info = Some accounts" and a: "a \<in> set accounts"
      and m: "find (\<lambda>item. item_name item = game a
                          \<and> map_option variation_name (selectedVariation item) = Some (package a))
               cartItems = Some m"
      and u: "map_of (account_fields a) ''IGN'' = Some u" and ne: "u \<noteq> []"
      and own: "\<forall>a'\<in>set accounts. \<forall>kv\<in>set (accountWrites cartItems a').
                fst kv = ''default_'' @ gameOf m @ ''_'' @ variationIdOf m @ ''_ign''
                \<longrightarrow> snd kv = u"
      by blast+
    from h have plain: "\<not> hasAnyCustomFields cartItems \<or> customFields m = None"
      by (elim conjE)
    have "(''default_'' @ gameOf m @ ''_'' @ variationIdOf m @ ''_ign'', u)
            \<in> set (accountWrites cartItems a)"
      by (rule accountWrites_default[OF m plain u ne])
    with multi a
    have "loadedValuesOf cartItems info (''default_'' @ gameOf m @ ''_'' @ variationIdOf m @ ''_ign'')
            = Some u"
      using own by (rule loaded_account_value)
    moreover have "customFieldValues ?st' = customFieldValues st ++ loadedValuesOf cartItems info"
      unfolding rejected_some[OF r ci] by simp
    ultimately show "customFieldValues ?st' (''default_'' @ gameOf m @ ''_'' @ variationIdOf m @ ''_ign'')
                       = Some u"
      by (simp add: map_add_Some_iff)
  next
    assume "order_status order = rejected \<and> customer_info order = Some info
          \<and> multiple_accounts info = Some accounts
          \<and> (\<forall>a'\<in>set accounts. K \<notin> fst ` set (accountWrites cartItems a'))"
    then have r: "order_status order = rejected" and ci: "customer_info order = Some info"
      and multi: "multiple_accounts info = Some accounts"
      and none: "\<forall>a'\<in>set accounts. K \<notin> fst ` set (accountWrites cartItems a')"
      by blast+
    have "loadedValuesOf cartItems info K = None"
      by (rule loaded_account_untouched[OF multi none])
    moreover have "customFieldValues ?st' = customFieldValues st ++ loadedValuesOf cartItems info"
      unfolding rejected_some[OF r ci] by simp
    ultimately show "customFieldValues ?st' K = customFieldValues st K"
      by (simp add: map_add_def)
  next
    assume "order_status order = rejected \<and> customer_info order = Some info
          \<and> multiple_accounts info = Some accounts"
    then have r: "order_status order = rejected" and ci: "customer_info order = Some info"
      and multi: "multiple_accounts info = Some accounts"
      by blast+
    let ?F = "filter (\<lambda>kv. fst kv = K') (concat (map (accountWrites cartItems) accounts))"
    have lv: "loadedValuesOf cartItems info K' = (if ?F = [] then None else Some (snd (last ?F)))"
      by (rule loaded_account_last[OF multi])
    have cf: "customFieldValues ?st' = customFieldValues st ++ loadedValuesOf cartItems info"
      unfolding rejected_some[OF r ci] by simp
    show "customFieldValues ?st' K'
          = (if ?F = [] then customFieldValues st K' else Some (snd (last ?F)))"
    proof (cases "?F = []")
      case True
      with lv have "loadedValuesOf cartItems info K' = None" by simp
      with True show ?thesis by (simp add: cf map_add_def)
    next
      case False
      with lv have "loadedValuesOf cartItems info K' = Some (snd (last ?F))" by simp
      with False show ?thesis by (simp add: cf map_add_def)
    qed
  qed
qed

theorem checkExistingOrder_approved_or_rejected_witness:
  "current_order_id (checkExistingOrder (exFetch exApproved) exCart exMounted) = None
   \<and> orderId (checkExistingOrder (exFetch exApproved) exCart exMounted) = None
   \<and> current_order_id (checkExistingOrder (exFetch exRejected) exCart exMounted) = None
   \<and> orderId (checkExistingOrder (exFetch exRejected) exCart exMounted) = Some ''o1''
   \<and> useMultipleAccounts (checkExistingOrder (exFetch exRejected) exCart exMounted) = False
   \<and> customFieldValues (checkExistingOrder (exFetch exRejected) exCart exMounted) ''g1_ign''
       = Some (codeUnits ''hero'')
   \<and> useMultipleAccounts (checkExistingOrder (exFetch exRejectedMulti) exCart exMounted) = True
   \<and> customFieldValues (checkExistingOrder (exFetch exRejectedMulti) exCart exMounted) ''g1_v2_ign''
       = Some (codeUnits ''alt'')
   \<and> customFieldValues (checkExistingOrder (exFetch exRejectedMulti) exCart exFilled) ''g1_v1_ign''
       = Some (codeUnits ''old'')
   \<and> customFieldValues (checkExistingOrder (exFetch exRejectedMultiIgn) exPlainCart exMounted)
         ''default_g2_v1_ign'' = Some (codeUnits ''solo'')
   \<and> customFieldValues (checkExistingOrder (exFetch exRejectedTwice) exCart exMounted) ''g1_v2_ign''
       = Some (codeUnits ''late'')
   \<and> customFieldValues (checkExistingOrder (exFetch exRejectedIgn) exPlainCart exMounted)
         ''default_ign'' = Some (codeUnits ''hero'')"
proof -
  let ?item = "exGame ''g1:::CART:::a'' ''v1'' (Some [exField ''ign'' True, exField ''srv'' False])"
  let ?info = "\<lparr>info_entries = [(''Payment Method'', codeUnits ''GCash''), (''ign'', codeUnits ''hero'')],
               multiple_accounts = None\<rparr>"
  let ?ign = "\<lparr>info_entries = [(''Payment Method'', codeUnits ''GCash''), (''IGN'', codeUnits ''hero'')],
              multiple_accounts = None :: Account list option\<rparr>"
  let ?multi = "\<lparr>info_entries = [(''Payment Method'', codeUnits ''GCash'')],
                multiple_accounts = Some [exAccount]\<rparr>"
  let ?multiIgn = "\<lparr>info_entries = [(''Payment Method'', codeUnits ''GCash'')],
                   multiple_accounts = Some [exAccountIgn]\<rparr>"
  let ?second = "exGame ''g1:::CART:::b'' ''v2'' (Some [exField ''ign'' True, exField ''srv'' False])"
  let ?plainItem = "exGame ''g2:::CART:::c'' ''v1'' None"
  have stored: "current_order_id exMounted = Some ''o1''" and ne: "''o1'' \<noteq> []"
    and storedFilled: "current_order_id exFilled = Some ''o1''"
    by (simp_all add: exMounted_def exFilled_def)
  have fa: "exFetch exApproved ''o1'' = Some exApproved"
    and fr: "exFetch exRejected ''o1'' = Some exRejected"
    and fm: "exFetch exRejectedMulti ''o1'' = Some exRejectedMulti"
    and fi: "exFetch exRejectedIgn ''o1'' = Some exRejectedIgn"
    and fmi: "exFetch exRejectedMultiIgn ''o1'' = Some exRejectedMultiIgn"
    by (simp_all add: exApproved_def exRejected_def exRejectedMulti_def exRejectedIgn_def
        exRejectedMultiIgn_def)
  have sa: "order_status exApproved = approved"
    and sr: "order_status exRejected = rejected" "customer_info exRejected = Some ?info"
    and sm: "order_status exRejectedMulti = rejected" "customer_info exRejectedMulti = Some ?multi"
    and si: "order_status exRejectedIgn = rejected" "customer_info exRejectedIgn = Some ?ign"
    and smi: "order_status exRejectedMultiIgn = rejected"
      "customer_info exRejectedMultiIgn = Some ?multiIgn"
    by (simp_all add: exApproved_def exRejected_def exRejectedMulti_def exRejectedIgn_def
        exRejectedMultiIgn_def)
  have game: "gameOf ?item = ''g1''"
    by (simp add: gameOf_def getOriginalMenuItemId_def cartSeparator_def exGame_def)
  have needing: "itemsWithCustomFields exCart = [?item]"
    by (simp add: itemsWithCustomFields_def exCart_def hasCustomFields_def rememberFirst_def
        gameOf_def getOriginalMenuItemId_def cartSeparator_def exGame_def)
  have plain: "\<not> hasAnyCustomFields exPlainCart"
    by (simp add: hasAnyCustomFields_def itemsWithCustomFields_def exPlainCart_def
        hasCustomFields_def exGame_def)
  have fields: "itemFields ?item = [exField ''ign'' True, exField ''srv'' False]"
    by (simp add: itemFields_def exGame_def)
  note ta = checkExistingOrder_approved_or_rejected[where fetchOrderById = "exFetch exApproved"
      and cartItems = exCart, OF stored ne fa]
  note tr = checkExistingOrder_approved_or_rejected[where fetchOrderById = "exFetch exRejected"
      and cartItems = exCart and info = ?info and item = ?item and f = "exField ''ign'' True"
      and w = "codeUnits ''hero''", OF stored ne fr]
  note tm = checkExistingOrder_approved_or_rejected[where fetchOrderById = "exFetch exRejectedMulti"
      and cartItems = exCart and info = ?multi and accounts = "[exAccount]" and a = exAccount
      and m = ?second and fs = "[exField ''ign'' True, exField ''srv'' False]"
      and g = "exField ''ign'' True" and u = "codeUnits ''alt''", OF stored ne fm]
  note tk = checkExistingOrder_approved_or_rejected[where fetchOrderById = "exFetch exRejectedMulti"
      and cartItems = exCart and info = ?multi and accounts = "[exAccount]"
      and K = "''g1_v1_ign''", OF storedFilled ne fm]
  note tmi = checkExistingOrder_approved_or_rejected[where fetchOrderById = "exFetch exRejectedMultiIgn"
      and cartItems = exPlainCart and info = ?multiIgn and accounts = "[exAccountIgn]"
      and a = exAccountIgn and m = ?plainItem and u = "codeUnits ''solo''", OF stored ne fmi]
  note ti = checkExistingOrder_approved_or_rejected[where fetchOrderById = "exFetch exRejectedIgn"
      and cartItems = exPlainCart and info = ?ign and v = "codeUnits ''hero''", OF stored ne fi]
  from ta[THEN conjunct1, THEN mp, OF sa]
  have 1: "current_order_id (checkExistingOrder (exFetch exApproved) exCart exMounted) = None"
    "orderId (checkExistingOrder (exFetch exApproved) exCart exMounted) = None"
    by blast+
  from tr[THEN conjunct2, THEN conjunct1, THEN mp, OF sr(1)]
  have 2: "current_order_id (checkExistingOrder (exFetch exRejected) exCart exMounted) = None"
    "orderId (checkExistingOrder (exFetch exRejected) exCart exMounted) = Some (order_id exRejected)"
    by blast+
  from tr[THEN conjunct2, THEN conjunct2, THEN conjunct1, THEN mp] sr
  have 9: "useMultipleAccounts (checkExistingOrder (exFetch exRejected) exCart exMounted)
       = (multiple_accounts ?info \<noteq> None)"
    by blast
  have own: "\<forall>item'\<in>set (itemsWithCustomFields exCart). \<forall>f'\<in>set (itemFields item').
               gameOf item' @ ''_'' @ field_key f' = gameOf ?item @ ''_'' @ field_key (exField ''ign'' True)
               \<longrightarrow> field_label f' = field_label (exField ''ign'' True)"
    unfolding needing by (simp add: fields) (simp add: exField_def)
  have pre: "distinct (map fst (info_entries ?info))" "multiple_accounts ?info = None"
    "?item \<in> set (itemsWithCustomFields exCart)" "exField ''ign'' True \<in> set (itemFields ?item)"
    "(field_label (exField ''ign'' True), codeUnits ''hero'') \<in> set (info_entries ?info)"
    "field_label (exField ''ign'' True) \<noteq> ''Payment Method''"
    unfolding needing fields by (simp_all add: exField_def)
  from tr[THEN conjunct2, THEN conjunct2, THEN conjunct2, THEN conjunct2, THEN conjunct1, THEN mp] sr pre own
  have 3: "customFieldValues (checkExistingOrder (exFetch exRejected) exCart exMounted)
             (gameOf ?item @ ''_'' @ field_key (exField ''ign'' True)) = Some (codeUnits ''hero'')"
    by blast
  from tm[THEN conjunct2, THEN conjunct2, THEN conjunct1, THEN mp] sm
  have 4: "useMultipleAccounts (checkExistingOrder (exFetch exRejectedMulti) exCart exMounted)
             = (multiple_accounts ?multi \<noteq> None)"
    by blast
  have prei: "distinct (map fst (info_entries ?ign))" "multiple_accounts ?ign = None"
    "(''IGN'', codeUnits ''hero'') \<in> set (info_entries ?ign)"
    by simp_all
  from ti[THEN conjunct2, THEN conjunct2, THEN conjunct2, THEN conjunct1, THEN mp] si prei plain
  have 5: "customFieldValues (checkExistingOrder (exFetch exRejectedIgn) exPlainCart exMounted)
             ''default_ign'' = Some (codeUnits ''hero'')"
    by blast
  have found: "find (\<lambda>item. item_name item = game exAccount
                          \<and> map_option variation_name (selectedVariation item) = Some (package exAccount))
                 exCart = Some ?second"
    by (simp add: exCart_def exAccount_def exGame_def)
  have any: "hasAnyCustomFields exCart"
    by (simp add: hasAnyCustomFields_def needing)
  have second: "gameOf (exGame ''g1:::CART:::b'' ''v2'' fs') = ''g1''"
    "variationIdOf (exGame ''g1:::CART:::b'' ''v2'' fs') = ''v2''"
    "customFields (exGame ''g1:::CART:::b'' ''v2'' fs') = fs'" for fs'
    by (simp_all add: gameOf_def getOriginalMenuItemId_def cartSeparator_def variationIdOf_def
        exGame_def)
  have writes: "accountWrites exCart exAccount = [(''g1_v2_ign'', codeUnits ''alt'')]"
    unfolding accountWrites_def found
    by (simp add: any second itemFields_def exField_def exAccount_def codeUnits_def)
  have prem: "multiple_accounts ?multi = Some [exAccount]" "exAccount \<in> set [exAccount]"
    "exField ''ign'' True \<in> set [exField ''ign'' True, exField ''srv'' False]"
    "map_of (account_fields exAccount) (field_label (exField ''ign'' True)) = Some (codeUnits ''alt'')"
    "codeUnits ''alt'' \<noteq> []"
    by (simp_all add: exAccount_def exField_def codeUnits_def)
  have ownm: "\<forall>a'\<in>set [exAccount]. \<forall>kv\<in>set (accountWrites exCart a').
                fst kv = gameOf ?second @ ''_'' @ variationIdOf ?second @ ''_'' @ field_key (exField ''ign'' True)
                \<longrightarrow> snd kv = codeUnits ''alt''"
    by (simp add: writes)
  from tm[THEN conjunct2, THEN conjunct2, THEN conjunct2, THEN conjunct2, THEN conjunct2, THEN conjunct1, THEN mp] sm found any second(3) prem ownm
  have 6: "customFieldValues (checkExistingOrder (exFetch exRejectedMulti) exCart exMounted)
             (gameOf ?second @ ''_'' @ variationIdOf ?second @ ''_'' @ field_key (exField ''ign'' True))
           = Some (codeUnits ''alt'')"
    by blast
  have keym: "gameOf ?second @ ''_'' @ variationIdOf ?second @ ''_'' @ field_key (exField ''ign'' True)
              = ''g1_v2_ign''"
    unfolding second by (simp add: exField_def)
  have untouched: "\<forall>a'\<in>set [exAccount]. ''g1_v1_ign'' \<notin> fst ` set (accountWrites exCart a')"
    by (simp add: writes)
  from tk[THEN conjunct2, THEN conjunct2, THEN conjunct2, THEN conjunct2, THEN conjunct2,
      THEN conjunct2, THEN conjunct2, THEN conjunct1, THEN mp] sm prem(1) untouched
  have "customFieldValues (checkExistingOrder (exFetch exRejectedMulti) exCart exFilled) ''g1_v1_ign''
          = customFieldValues exFilled ''g1_v1_ign''"
    by blast
  then have 7: "customFieldValues (checkExistingOrder (exFetch exRejectedMulti) exCart exFilled)
                  ''g1_v1_ign'' = Some (codeUnits ''old'')"
    by (simp add: exFilled_def)
  have foundi: "find (\<lambda>item. item_name item = game exAccountIgn
                          \<and> map_option variation_name (selectedVariation item) = Some (package exAccountIgn))
                 exPlainCart = Some ?plainItem"
    by (simp add: exPlainCart_def exAccountIgn_def exGame_def)
  have plainItem: "gameOf ?plainItem = ''g2''" "variationIdOf ?plainItem = ''v1''"
    by (simp_all add: gameOf_def getOriginalMenuItemId_def cartSeparator_def variationIdOf_def
        exGame_def)
  have writesi: "accountWrites exPlainCart exAccountIgn = [(''default_g2_v1_ign'', codeUnits ''solo'')]"
    unfolding accountWrites_def foundi
    by (simp add: plain plainItem exAccountIgn_def codeUnits_def)
  have premi: "multiple_accounts ?multiIgn = Some [exAccountIgn]" "exAccountIgn \<in> set [exAccountIgn]"
    "\<not> hasAnyCustomFields exPlainCart \<or> customFields ?plainItem = None"
    "map_of (account_fields exAccountIgn) ''IGN'' = Some (codeUnits ''solo'')"
    "codeUnits ''solo'' \<noteq> []"
    by (simp_all add: exAccountIgn_def codeUnits_def plain)
  have owni: "\<forall>a'\<in>set [exAccountIgn]. \<forall>kv\<in>set (accountWrites exPlainCart a').
                fst kv = ''default_'' @ gameOf ?plainItem @ ''_'' @ variationIdOf ?plainItem @ ''_ign''
                \<longrightarrow> snd kv = codeUnits ''solo''"
    by (simp add: writesi)
  from tmi[THEN conjunct2, THEN conjunct2, THEN conjunct2, THEN conjunct2, THEN conjunct2, THEN conjunct2, THEN conjunct1, THEN mp] smi foundi premi owni
  have 8: "customFieldValues (checkExistingOrder (exFetch exRejectedMultiIgn) exPlainCart exMounted)
             (''default_'' @ gameOf ?plainItem @ ''_'' @ variationIdOf ?plainItem @ ''_ign'')
           = Some (codeUnits ''solo'')"
    by blast
  have keyi: "''default_'' @ gameOf ?plainItem @ ''_'' @ variationIdOf ?plainItem @ ''_ign''
              = ''default_g2_v1_ign''"
    unfolding plainItem by simp
  let ?twice = "\<lparr>info_entries = [(''Payment Method'', codeUnits ''GCash'')],
                multiple_accounts = Some [exAccount, exAccountLate]\<rparr>"
  have ft: "exFetch exRejectedTwice ''o1'' = Some exRejectedTwice"
    and st: "order_status exRejectedTwice = rejected"
      "customer_info exRejectedTwice = Some ?twice"
      "multiple_accounts ?twice = Some [exAccount, exAccountLate]"
    by (simp_all add: exRejectedTwice_def)
  have foundl: "find (\<lambda>item. item_name item = game exAccountLate
                          \<and> map_option variation_name (selectedVariation item) = Some (package exAccountLate))
                 exCart = Some ?second"
    by (simp add: exCart_def exAccountLate_def exGame_def)
  have writesl: "accountWrites exCart exAccountLate = [(''g1_v2_ign'', codeUnits ''late'')]"
    unfolding accountWrites_def foundl
    by (simp add: any second itemFields_def exField_def exAccountLate_def codeUnits_def)
  note tt = checkExistingOrder_approved_or_rejected[where fetchOrderById = "exFetch exRejectedTwice"
      and cartItems = exCart and info = ?twice and accounts = "[exAccount, exAccountLate]"
      and K' = "''g1_v2_ign''", OF stored ne ft]
  from tt[THEN conjunct2, THEN conjunct2, THEN conjunct2, THEN conjunct2, THEN conjunct2,
      THEN conjunct2, THEN conjunct2, THEN conjunct2, THEN mp] st
  have "customFieldValues (checkExistingOrder (exFetch exRejectedTwice) exCart exMounted) ''g1_v2_ign''
        = (if filter (\<lambda>kv. fst kv = ''g1_v2_ign'')
                  (concat (map (accountWrites exCart) [exAccount, exAccountLate])) = []
           then customFieldValues exMounted ''g1_v2_ign''
           else Some (snd (last (filter (\<lambda>kv. fst kv = ''g1_v2_ign'')
                                   (concat (map (accountWrites exCart) [exAccount, exAccountLate]))))))"
    by blast
  then have 10: "customFieldValues (checkExistingOrder (exFetch exRejectedTwice) exCart exMounted)
                   ''g1_v2_ign'' = Some (codeUnits ''late'')"
    by (simp add: writes writesl)
  have oid: "order_id exRejected = ''o1''"
    by (simp add: exRejected_def)
  have key: "gameOf ?item @ ''_'' @ field_key (exField ''ign'' True) = ''g1_ign''"
    unfolding game by (simp add: exField_def)
  from 1 2 9 3 4 5 6 7 8 10 show ?thesis
    unfolding oid key keym keyi by simp
qed

text \<open>
  The claim as stated fails: a fetched order with status \<open>rejected\<close> does not keep
  \<open>current_order_id\<close> in local storage.
\<close>

theorem rejected_order_clears_stored_id_counterexample:
  "current_order_id exMounted = Some ''o1''
   \<and> exFetch exRejected ''o1'' = Some exRejected
   \<and> order_status exRejected = rejected
   \<and> current_order_id (checkExistingOrder (exFetch exRejected) exCart exMounted) = None"
  by (simp add: checkExistingOrder_def exMounted_def exRejected_def loadCustomerInfo_def)

subsection \<open>Switching modes\<close>

text \<open>
  C6 (as the code has it). Unchecking Multiple Accounts resets \<open>customFieldValues\<close> to the
  empty record; checking it leaves the values entered so far as they are; either way
  \<open>useMultipleAccounts\<close> becomes the checkbox's state.
\<close>

theorem toggleMultipleAccounts_clears_when_unchecked:
  "customFieldValues (toggleMultipleAccounts False st) = Map.empty
   \<and> customFieldValues (toggleMultipleAccounts True st) = customFieldValues st
   \<and> useMultipleAccounts (toggleMultipleAccounts checked st) = checked"
  by (simp add: toggleMultipleAccounts_def Let_def)

text \<open>
  The claim as stated fails: switching from single-account to multiple-accounts mode
  keeps a value entered before.
\<close>

theorem toggle_on_keeps_values_counterexample:
  "useMultipleAccounts (exCheckout\<lparr>customFieldValues := [''g1_ign'' \<mapsto> codeUnits ''hero'']\<rparr>) = False
   \<and> customFieldValues
        (toggleMultipleAccounts True (exCheckout\<lparr>customFieldValues := [''g1_ign'' \<mapsto> codeUnits ''hero'']\<rparr>))
        ''g1_ign'' = Some (codeUnits ''hero'')"
  by (simp add: toggleMultipleAccounts_def Let_def exCheckout_def)

end
